theory Spec2Isabelle
  imports Main "HOL-Library.Word"
begin

section \<open>Backbone Router manager (src/core/backbone_router/bbr_manager.cpp)\<close>

text \<open>
  A shallow embedding of \<^verbatim>\<open>ot::BackboneRouter::Manager\<close>. The manager's own fields are a
  record that every operation takes and returns. Objects reached through \<^verbatim>\<open>Get<...>()\<close>
  and the two tables owned by the manager are declared in other files of the repository:
  their operations, and the constants of other headers, are fields of the record
  \<open>env\<close>, so every theorem holds for each implementation of them. Messages handed to
  a CoAP agent, resources added to or removed from it and the registration calls on the
  tables are returned as a list of \<open>action\<close>s, in the order of the calls. What a send
  routine does with the result of the agent (it frees the message and logs) leaves no
  trace in the manager and is not modelled. An assertion that fails and an array access
  out of bounds end a handler with a \<open>fault\<close>.
\<close>

subsection \<open>Data\<close>

type_synonym ip6_address = "128 word"
type_synonym interface_identifier = "64 word"
type_synonym short_address = "16 word"
type_synonym time_milli = "32 word"

datatype otError =
    OT_ERROR_NONE
  | OT_ERROR_FAILED
  | OT_ERROR_DROP
  | OT_ERROR_NO_BUFS
  | OT_ERROR_PARSE
  | OT_ERROR_INVALID_ARGS
  | OT_ERROR_ADDRESS_QUERY
  | OT_ERROR_NOT_FOUND
  | OT_ERROR_INVALID_STATE
  | OT_ERROR_DUPLICATED

datatype MlrStatus =
    kMlrSuccess
  | kMlrInvalid
  | kMlrNoPersistent
  | kMlrNoResources
  | kMlrBbrNotPrimary
  | kMlrGeneralFailure

datatype DuaStatus =
    kDuaSuccess
  | kDuaDuplicate
  | kDuaNoResources
  | kDuaNotPrimary
  | kDuaInvalid
  | kDuaGeneralFailure

datatype otBackboneRouterState =
    OT_BACKBONE_ROUTER_STATE_DISABLED
  | OT_BACKBONE_ROUTER_STATE_SECONDARY
  | OT_BACKBONE_ROUTER_STATE_PRIMARY

datatype event = kEventThreadBackboneRouterStateChanged | kEventOther nat

datatype resource = MulticastListenerRegistrationResource | DuaRegistrationResource

text \<open>
  What the handlers read from a request. Each \<open>Find...\<close> field is the result of the TLV
  lookup of that name on the message: \<open>None\<close> when the lookup does not return
  \<^verbatim>\<open>OT_ERROR_NONE\<close>, the value it stores otherwise; the two lookups of the DUA handler
  whose error is kept are a pair of the error and the value. \<open>FindIPv6AddressesTlv\<close>
  gives \<^verbatim>\<open>addressesLength\<close>, and \<open>ReadAddress msg offset\<close> is the address that
  \<^verbatim>\<open>aMessage.Read(addressesOffset + offset, address)\<close> leaves in \<^verbatim>\<open>address\<close>.
\<close>

record coap_message =
  IsConfirmablePostRequest :: bool
  FindCommissionerSessionIdTlv :: "16 word option"
  FindTimeoutTlv :: "32 word option"
  FindIPv6AddressesTlv :: "16 word option"
  ReadAddress :: "16 word \<Rightarrow> ip6_address"
  FindTargetTlv :: "otError \<times> ip6_address"
  FindMeshLocalEidTlv :: "otError \<times> interface_identifier"
  FindLastTransactionTimeTlv :: "32 word option"

record message_info =
  GetPeerAddr :: ip6_address

text \<open>
  The calls a handler makes on the agents and, in the two registration handlers, on the
  tables: resources added and removed, messages sent, and each registration call with
  its arguments and the error it returned. An element of an address list is \<open>None\<close>
  when the array slot it is read from was never written; the timeout of a notification is
  \<open>None\<close> when the local variable \<^verbatim>\<open>timeout\<close> was never assigned.
\<close>

datatype action =
    TmfAddResource resource
  | TmfRemoveResource resource
  | BackboneTmfStart
  | BackboneTmfStop
  | MlrResponse MlrStatus "ip6_address option list option"
  | BackboneMlrNotification "ip6_address option list" "32 word option"
  | DuaResponse ip6_address DuaStatus
  | EmptyAck "8 word"
  | ListenersAddCall ip6_address "32 word" otError
  | ListenersRemoveCall ip6_address
  | NdProxyRegisterCall "64 word" "64 word" "16 word" "32 word option" otError

text \<open>
  The ways a handler stops before its end: \<^verbatim>\<open>OT_ASSERT(false)\<close> in the \<^verbatim>\<open>switch\<close> on the
  result of \<open>Add\<close>, the assertion of \<^verbatim>\<open>SendBackboneMulticastListenerRegistration\<close> on the
  number of addresses, and an access to the array \<^verbatim>\<open>addresses\<close> outside its bounds.
\<close>

datatype fault =
    AssertUnexpectedAddError
  | AssertAddressNumRange
  | ArrayIndexOutOfBounds

text \<open>
  The constants and collaborators that the manager uses and this file of the repository
  does not define: the build option, constants of \<^verbatim>\<open>thread_tlvs.hpp\<close>, \<^verbatim>\<open>mle_types.hpp\<close>,
  \<^verbatim>\<open>bbr_manager.hpp\<close> and \<^verbatim>\<open>coap.hpp\<close>, the local and the leader Backbone Router objects,
  the network data, the clock, the address resolver, accessors of addresses, and the
  operations of the two tables, which take the table and return the new one.
  \<^item> \<open>DuaStatusOfUint8\<close> is the cast \<^verbatim>\<open>static_cast<ThreadStatusTlv::DuaStatus>\<close>.
  \<^item> \<open>GetConfigMlrTimeout\<close> is \<^verbatim>\<open>config.mMlrTimeout\<close> after
    \<^verbatim>\<open>Get<BackboneRouter::Leader>().GetConfig(config)\<close>.
  \<^item> \<open>GetCommissionerSessionId\<close> is the session identifier of the sub-TLV that
    \<^verbatim>\<open>GetCommissioningDataSubTlv(MeshCoP::Tlv::kCommissionerSessionId)\<close> returns, \<open>None\<close> for
    \<^verbatim>\<open>nullptr\<close>.
  \<^item> \<open>Resolve a\<close> is the error that \<^verbatim>\<open>Resolve(a, rloc16, false)\<close> returns and the value of
    \<^verbatim>\<open>rloc16\<close> after the call.
  \<^item> \<open>ListenersAdd\<close> and \<open>NdProxyRegister\<close> return their error with the table.
\<close>

record ('mlt, 'ndp) env =
  OPENTHREAD_CONFIG_REFERENCE_DEVICE_ENABLE :: bool
  kIPv6AddressesNumMin :: nat
  kIPv6AddressesNumMax :: nat
  kMlrTimeoutMin :: "32 word"
  kMlrTimeoutMax :: "32 word"
  kTimerInterval :: "32 word"
  kCodeEmpty :: "8 word"
  kCodeResponseMin :: "8 word"
  DuaStatusOfUint8 :: "8 word \<Rightarrow> DuaStatus"
  GetState :: otBackboneRouterState
  IsPrimary :: bool
  GetConfigMlrTimeout :: "32 word"
  IsDomainUnicast :: "ip6_address \<Rightarrow> bool"
  GetCommissionerSessionId :: "16 word option"
  GetNow :: time_milli
  SecToMsec :: "32 word \<Rightarrow> 32 word"
  Resolve :: "ip6_address \<Rightarrow> otError \<times> short_address"
  GetRloc16 :: short_address
  GetIid :: "ip6_address \<Rightarrow> interface_identifier"
  IsRoutingLocator :: "interface_identifier \<Rightarrow> bool"
  GetLocator :: "interface_identifier \<Rightarrow> short_address"
  IsUnspecified :: "interface_identifier \<Rightarrow> bool"
  ListenersAdd :: "ip6_address \<Rightarrow> time_milli \<Rightarrow> 'mlt \<Rightarrow> otError \<times> 'mlt"
  ListenersRemove :: "ip6_address \<Rightarrow> 'mlt \<Rightarrow> 'mlt"
  ListenersExpire :: "'mlt \<Rightarrow> 'mlt"
  ListenersClear :: "'mlt \<Rightarrow> 'mlt"
  NdProxyRegister :: "interface_identifier \<Rightarrow> interface_identifier \<Rightarrow> short_address
                        \<Rightarrow> 32 word option \<Rightarrow> 'ndp \<Rightarrow> otError \<times> 'ndp"
  NdProxyIsRegistered :: "interface_identifier \<Rightarrow> 'ndp \<Rightarrow> bool"

text \<open>
  The fields of \<^verbatim>\<open>Manager\<close>. \<open>mTimer\<close> is \<open>None\<close> when the timer is stopped and its fire
  time when it runs. The last five fields exist in builds with
  \<^verbatim>\<open>OPENTHREAD_CONFIG_REFERENCE_DEVICE_ENABLE\<close> only, where they are read.
\<close>

record ('mlt, 'ndp) manager =
  mNdProxyTable :: 'ndp
  mMulticastListenersTable :: 'mlt
  mTimer :: "time_milli option"
  mDuaResponseStatus :: "8 word"
  mMlrResponseStatus :: MlrStatus
  mDuaResponseTargetMlIid :: interface_identifier
  mDuaResponseIsSpecified :: bool
  mMlrResponseIsSpecified :: bool

subsection \<open>Role changes and the expiry timer\<close>

definition HandleNotifierEvents ::
  "('mlt, 'ndp) env \<Rightarrow> ('mlt, 'ndp) manager \<Rightarrow> event set \<Rightarrow> action list \<times> ('mlt, 'ndp) manager" where
  "HandleNotifierEvents e m aEvents =
    (if kEventThreadBackboneRouterStateChanged \<in> aEvents then
       (if GetState e = OT_BACKBONE_ROUTER_STATE_DISABLED then
          ([TmfRemoveResource MulticastListenerRegistrationResource,
            TmfRemoveResource DuaRegistrationResource,
            BackboneTmfStop],
           m\<lparr>mTimer := None,
             mMulticastListenersTable := ListenersClear e (mMulticastListenersTable m)\<rparr>)
        else
          ([TmfAddResource MulticastListenerRegistrationResource,
            TmfAddResource DuaRegistrationResource,
            BackboneTmfStart],
           (if mTimer m = None then m\<lparr>mTimer := Some (GetNow e + kTimerInterval e)\<rparr> else m)))
     else ([], m))"

definition HandleTimer :: "('mlt, 'ndp) env \<Rightarrow> ('mlt, 'ndp) manager \<Rightarrow> ('mlt, 'ndp) manager" where
  "HandleTimer e m =
     m\<lparr>mMulticastListenersTable := ListenersExpire e (mMulticastListenersTable m),
       mTimer := Some (GetNow e + kTimerInterval e)\<rparr>"

subsection \<open>Multicast Listener Registration\<close>

text \<open>
  The local variables of \<^verbatim>\<open>HandleMulticastListenerRegistration\<close> that outlive a statement,
  with the manager as it is at that point (\<open>this\<close>) and the calls made so far
  (\<open>calls\<close>). \<open>addresses\<close> is the array
  \<^verbatim>\<open>Ip6::Address addresses[kIPv6AddressesNumMax]\<close>; a slot is \<open>None\<close> until it is written.
\<close>

record ('mlt, 'ndp) mlr_frame =
  error :: otError
  status :: MlrStatus
  addresses :: "ip6_address option list"
  failedAddressNum :: "8 word"
  successAddressNum :: "8 word"
  timeout :: "32 word option"
  this :: "('mlt, 'ndp) manager"
  calls :: "action list"

definition sizeof_Ip6_Address :: nat where
  "sizeof_Ip6_Address = 16"

definition UINT32_MAX :: "32 word" where
  "UINT32_MAX = 4294967295"

text \<open>A write to an array slot; the index is a C++ \<^verbatim>\<open>int\<close> after integer promotion.\<close>

definition arrayStore :: "'a option list \<Rightarrow> int \<Rightarrow> 'a \<Rightarrow> fault + 'a option list" where
  "arrayStore arr i v =
     (if 0 \<le> i \<and> i < int (length arr) then Inr (arr[nat i := Some v])
      else Inl ArrayIndexOutOfBounds)"

text \<open>The \<open>n\<close> slots from index \<open>i\<close> on, read through a pointer to slot \<open>i\<close>.\<close>

definition arrayRead :: "'a option list \<Rightarrow> int \<Rightarrow> nat \<Rightarrow> fault + 'a option list" where
  "arrayRead arr i n =
     (if 0 \<le> i \<and> i + int n \<le> int (length arr) then Inr (take n (drop (nat i) arr))
      else Inl ArrayIndexOutOfBounds)"

definition SendMulticastListenerRegistrationResponse ::
  "MlrStatus \<Rightarrow> ip6_address option list \<Rightarrow> 8 word \<Rightarrow> fault + action list" where
  "SendMulticastListenerRegistrationResponse aStatus aFailedAddresses aFailedAddressNum =
     (if aFailedAddressNum > 0 then
        (case arrayRead aFailedAddresses 0 (unat aFailedAddressNum) of
           Inl x \<Rightarrow> Inl x
         | Inr failed \<Rightarrow> Inr [MlrResponse aStatus (Some failed)])
      else Inr [MlrResponse aStatus None])"

text \<open>
  \<open>aAddresses\<close> is the array and \<open>aFirst\<close> the index of the slot that the pointer
  argument of the source points to.
\<close>

definition SendBackboneMulticastListenerRegistration ::
  "('mlt, 'ndp) env \<Rightarrow> ip6_address option list \<Rightarrow> int \<Rightarrow> 8 word \<Rightarrow> 32 word option
     \<Rightarrow> fault + action list" where
  "SendBackboneMulticastListenerRegistration e aAddresses aFirst aAddressNum aTimeout =
     (if \<not> (unat aAddressNum \<ge> kIPv6AddressesNumMin e \<and> unat aAddressNum \<le> kIPv6AddressesNumMax e)
      then Inl AssertAddressNumRange
      else (case arrayRead aAddresses aFirst (unat aAddressNum) of
              Inl x \<Rightarrow> Inl x
            | Inr sent \<Rightarrow> Inr [BackboneMlrNotification sent aTimeout]))"

text \<open>The statements after the label \<^verbatim>\<open>exit\<close>.\<close>

definition mlrExit ::
  "('mlt, 'ndp) env \<Rightarrow> ('mlt, 'ndp) mlr_frame \<Rightarrow> fault + (action list \<times> ('mlt, 'ndp) manager)" where
  "mlrExit e f =
     (case (if error f = OT_ERROR_NONE
            then SendMulticastListenerRegistrationResponse (status f) (addresses f) (failedAddressNum f)
            else Inr []) of
        Inl x \<Rightarrow> Inl x
      | Inr rsp \<Rightarrow>
          (if successAddressNum f > 0 then
             (case SendBackboneMulticastListenerRegistration e (addresses f)
                     (int (kIPv6AddressesNumMax e) - int (unat (successAddressNum f)))
                     (successAddressNum f) (timeout f) of
                Inl x \<Rightarrow> Inl x
              | Inr ntf \<Rightarrow> Inr (calls f @ rsp @ ntf, this f))
           else Inr (calls f @ rsp, this f)))"

text \<open>
  The body of the loop over the address list for the address at \<open>offset\<close>:
  \<open>aTimeout\<close> is the value of \<^verbatim>\<open>timeout\<close> and \<open>expireTime\<close> the expiry computed before
  the loop.
\<close>

definition mlrBody ::
  "('mlt, 'ndp) env \<Rightarrow> coap_message \<Rightarrow> 32 word \<Rightarrow> time_milli \<Rightarrow> 16 word
     \<Rightarrow> ('mlt, 'ndp) mlr_frame \<Rightarrow> fault + ('mlt, 'ndp) mlr_frame" where
  "mlrBody e aMessage aTimeout expireTime offset f =
     (let address = ReadAddress aMessage offset;
          m = this f
      in if aTimeout = 0 then
           Inr (f\<lparr>this := m\<lparr>mMulticastListenersTable :=
                               ListenersRemove e address (mMulticastListenersTable m)\<rparr>,
                  calls := calls f @ [ListenersRemoveCall address]\<rparr>)
         else
           (case ListenersAdd e address expireTime (mMulticastListenersTable m) of
              (r, tbl) \<Rightarrow>
                (let f1 = f\<lparr>this := m\<lparr>mMulticastListenersTable := tbl\<rparr>,
                            calls := calls f @ [ListenersAddCall address expireTime r]\<rparr> in
                 if r = OT_ERROR_NONE then
                   (let n = successAddressNum f1 + 1 in
                    case arrayStore (addresses f1) (int (kIPv6AddressesNumMax e) - int (unat n)) address of
                      Inl x \<Rightarrow> Inl x
                    | Inr arr \<Rightarrow> Inr (f1\<lparr>successAddressNum := n, addresses := arr\<rparr>))
                 else if r = OT_ERROR_INVALID_ARGS \<or> r = OT_ERROR_NO_BUFS then
                   (let f2 = (if status f1 = kMlrSuccess
                              then f1\<lparr>status := (if r = OT_ERROR_INVALID_ARGS then kMlrInvalid
                                                  else kMlrNoResources)\<rparr>
                              else f1)
                    in case arrayStore (addresses f2) (int (unat (failedAddressNum f2))) address of
                         Inl x \<Rightarrow> Inl x
                       | Inr arr \<Rightarrow> Inr (f2\<lparr>failedAddressNum := failedAddressNum f2 + 1,
                                               addresses := arr\<rparr>))
                 else Inl AssertUnexpectedAddError)))"

text \<open>
  The loop \<^verbatim>\<open>for (uint16_t offset = 0; offset < addressesLength; offset += sizeof(Ip6::Address))\<close>.
  The counter is a 16-bit word and wraps; the result is \<open>None\<close> when the loop never ends.
\<close>

partial_function (option) mlrLoop ::
  "('mlt, 'ndp) env \<Rightarrow> coap_message \<Rightarrow> 16 word \<Rightarrow> 32 word \<Rightarrow> time_milli \<Rightarrow> 16 word
     \<Rightarrow> ('mlt, 'ndp) mlr_frame \<Rightarrow> (fault + ('mlt, 'ndp) mlr_frame) option" where
  "mlrLoop e aMessage addressesLength aTimeout expireTime offset f =
     (if offset < addressesLength then
        (case mlrBody e aMessage aTimeout expireTime offset f of
           Inl x \<Rightarrow> Some (Inl x)
         | Inr f' \<Rightarrow> mlrLoop e aMessage addressesLength aTimeout expireTime
                       (offset + of_nat sizeof_Ip6_Address) f')
      else Some (Inr f))"

declare mlrLoop.simps [code]

text \<open>From the computation of \<^verbatim>\<open>expireTime\<close> to the end, with \<^verbatim>\<open>timeout\<close> settled.\<close>

definition mlrRegister ::
  "('mlt, 'ndp) env \<Rightarrow> coap_message \<Rightarrow> 16 word \<Rightarrow> 32 word \<Rightarrow> ('mlt, 'ndp) mlr_frame
     \<Rightarrow> (fault + (action list \<times> ('mlt, 'ndp) manager)) option" where
  "mlrRegister e aMessage addressesLength aTimeout f =
     (let expireTime = GetNow e + SecToMsec e aTimeout in
      case mlrLoop e aMessage addressesLength aTimeout expireTime 0 (f\<lparr>timeout := Some aTimeout\<rparr>) of
        None \<Rightarrow> None
      | Some (Inl x) \<Rightarrow> Some (Inl x)
      | Some (Inr f') \<Rightarrow> Some (mlrExit e f'))"

text \<open>
  From the lookup of the address list on. \<open>timeoutTlv\<close> is \<open>Some t\<close> when
  \<^verbatim>\<open>processTimeoutTlv\<close> is true, with \<open>t\<close> the value the lookup stored in \<^verbatim>\<open>timeout\<close>.
\<close>

definition mlrAddresses ::
  "('mlt, 'ndp) env \<Rightarrow> coap_message \<Rightarrow> 32 word option \<Rightarrow> ('mlt, 'ndp) mlr_frame
     \<Rightarrow> (fault + (action list \<times> ('mlt, 'ndp) manager)) option" where
  "mlrAddresses e aMessage timeoutTlv f =
     (case FindIPv6AddressesTlv aMessage of
        None \<Rightarrow> Some (mlrExit e (f\<lparr>error := OT_ERROR_PARSE, timeout := timeoutTlv\<rparr>))
      | Some addressesLength \<Rightarrow>
          if \<not> (unat addressesLength mod sizeof_Ip6_Address = 0) then
            Some (mlrExit e (f\<lparr>status := kMlrGeneralFailure, timeout := timeoutTlv\<rparr>))
          else if \<not> (unat addressesLength div sizeof_Ip6_Address \<le> kIPv6AddressesNumMax e) then
            Some (mlrExit e (f\<lparr>status := kMlrGeneralFailure, timeout := timeoutTlv\<rparr>))
          else
            (case timeoutTlv of
               None \<Rightarrow> mlrRegister e aMessage addressesLength (GetConfigMlrTimeout e) f
             | Some t \<Rightarrow>
                 if \<not> (t < UINT32_MAX) then
                   Some (mlrExit e (f\<lparr>status := kMlrNoPersistent, timeout := timeoutTlv\<rparr>))
                 else if t \<noteq> 0 then
                   mlrRegister e aMessage addressesLength
                     (max (min t (kMlrTimeoutMax e)) (kMlrTimeoutMin e)) f
                 else mlrRegister e aMessage addressesLength t f))"

definition HandleMulticastListenerRegistration ::
  "('mlt, 'ndp) env \<Rightarrow> ('mlt, 'ndp) manager \<Rightarrow> coap_message
     \<Rightarrow> (fault + (action list \<times> ('mlt, 'ndp) manager)) option" where
  "HandleMulticastListenerRegistration e m aMessage =
     (let f = \<lparr>error = OT_ERROR_NONE, status = kMlrSuccess,
               addresses = replicate (kIPv6AddressesNumMax e) None,
               failedAddressNum = 0, successAddressNum = 0, timeout = None, this = m,
               calls = []\<rparr>
      in if \<not> IsConfirmablePostRequest aMessage then Some (mlrExit e (f\<lparr>error := OT_ERROR_PARSE\<rparr>))
         else if OPENTHREAD_CONFIG_REFERENCE_DEVICE_ENABLE e \<and> mMlrResponseIsSpecified m then
           Some (mlrExit e (f\<lparr>this := m\<lparr>mMlrResponseIsSpecified := False\<rparr>,
                              status := mMlrResponseStatus m\<rparr>))
         else if \<not> IsPrimary e then Some (mlrExit e (f\<lparr>status := kMlrBbrNotPrimary\<rparr>))
         else
           (case FindCommissionerSessionIdTlv aMessage of
              Some commissionerSessionId \<Rightarrow>
                if \<not> (GetCommissionerSessionId e = Some commissionerSessionId) then
                  Some (mlrExit e (f\<lparr>status := kMlrGeneralFailure\<rparr>))
                else mlrAddresses e aMessage (FindTimeoutTlv aMessage) f
            | None \<Rightarrow> mlrAddresses e aMessage None f))"

subsection \<open>Domain Unicast Address registration\<close>

definition SendDuaRegistrationResponse :: "ip6_address \<Rightarrow> DuaStatus \<Rightarrow> action list" where
  "SendDuaRegistrationResponse aTarget aStatus = [DuaResponse aTarget aStatus]"

text \<open>
  The statements after the label \<^verbatim>\<open>exit\<close>; \<open>duaRespCoapCode\<close> is \<open>kCodeEmpty e\<close> in a
  build without the reference-device option.
\<close>

definition duaExit ::
  "('mlt, 'ndp) env \<Rightarrow> otError \<Rightarrow> 8 word \<Rightarrow> ip6_address \<Rightarrow> DuaStatus \<Rightarrow> action list" where
  "duaExit e err duaRespCoapCode target st =
     (if err = OT_ERROR_NONE then
        (if OPENTHREAD_CONFIG_REFERENCE_DEVICE_ENABLE e \<and> duaRespCoapCode \<noteq> kCodeEmpty e
         then [EmptyAck duaRespCoapCode]
         else SendDuaRegistrationResponse target st)
      else [])"

definition HandleDuaRegistration ::
  "('mlt, 'ndp) env \<Rightarrow> ('mlt, 'ndp) manager \<Rightarrow> coap_message \<Rightarrow> message_info
     \<Rightarrow> action list \<times> ('mlt, 'ndp) manager" where
  "HandleDuaRegistration e m aMessage aMessageInfo =
     (let target0 = snd (FindTargetTlv aMessage);
          peerIid = GetIid e (GetPeerAddr aMessageInfo)
      in if \<not> IsRoutingLocator e peerIid then
           (duaExit e OT_ERROR_DROP (kCodeEmpty e) target0 kDuaSuccess, m)
         else if \<not> IsConfirmablePostRequest aMessage then
           (duaExit e OT_ERROR_PARSE (kCodeEmpty e) target0 kDuaSuccess, m)
         else if fst (FindTargetTlv aMessage) \<noteq> OT_ERROR_NONE then
           (duaExit e (fst (FindTargetTlv aMessage)) (kCodeEmpty e) target0 kDuaSuccess, m)
         else if fst (FindMeshLocalEidTlv aMessage) \<noteq> OT_ERROR_NONE then
           (duaExit e (fst (FindMeshLocalEidTlv aMessage)) (kCodeEmpty e) target0 kDuaSuccess, m)
         else
           (let target = snd (FindTargetTlv aMessage);
                meshLocalIid = snd (FindMeshLocalEidTlv aMessage)
            in if OPENTHREAD_CONFIG_REFERENCE_DEVICE_ENABLE e \<and> mDuaResponseIsSpecified m \<and>
                  (IsUnspecified e (mDuaResponseTargetMlIid m) \<or> mDuaResponseTargetMlIid m = meshLocalIid)
               then
                 (if mDuaResponseStatus m \<ge> kCodeResponseMin e then
                    (duaExit e OT_ERROR_NONE (mDuaResponseStatus m) target kDuaSuccess,
                     m\<lparr>mDuaResponseIsSpecified := False\<rparr>)
                  else
                    (duaExit e OT_ERROR_NONE (kCodeEmpty e) target
                       (DuaStatusOfUint8 e (mDuaResponseStatus m)),
                     m\<lparr>mDuaResponseIsSpecified := False\<rparr>))
               else if \<not> IsPrimary e then
                 (duaExit e OT_ERROR_NONE (kCodeEmpty e) target kDuaNotPrimary, m)
               else if \<not> IsDomainUnicast e target then
                 (duaExit e OT_ERROR_NONE (kCodeEmpty e) target kDuaInvalid, m)
               else
                 (case NdProxyRegister e (GetIid e target) meshLocalIid (GetLocator e peerIid)
                         (FindLastTransactionTimeTlv aMessage) (mNdProxyTable m) of
                    (r, tbl) \<Rightarrow>
                      (NdProxyRegisterCall (GetIid e target) meshLocalIid (GetLocator e peerIid)
                         (FindLastTransactionTimeTlv aMessage) r #
                       duaExit e OT_ERROR_NONE (kCodeEmpty e) target
                         (if r = OT_ERROR_NONE then kDuaSuccess
                          else if r = OT_ERROR_DUPLICATED then kDuaDuplicate
                          else if r = OT_ERROR_NO_BUFS then kDuaNoResources
                          else kDuaGeneralFailure),
                       m\<lparr>mNdProxyTable := tbl\<rparr>))))"

subsection \<open>Forwarding decision\<close>

definition ShouldForwardDuaToBackbone ::
  "('mlt, 'ndp) env \<Rightarrow> ('mlt, 'ndp) manager \<Rightarrow> ip6_address \<Rightarrow> bool \<times> ('mlt, 'ndp) manager" where
  "ShouldForwardDuaToBackbone e m aAddress =
     (if \<not> IsPrimary e then (False, m)
      else if \<not> IsDomainUnicast e aAddress then (False, m)
      else if \<not> (\<not> NdProxyIsRegistered e (GetIid e aAddress) (mNdProxyTable m)) then (False, m)
      else (case Resolve e aAddress of
              (err, rloc16) \<Rightarrow>
                if \<not> (err \<noteq> OT_ERROR_NONE \<or> rloc16 = GetRloc16 e) then (False, m)
                else (True, m)))"

section \<open>Notions used to state and prove the properties\<close>

subsection \<open>What a run of a handler shows\<close>

text \<open>
  Read off the list of calls: the calls of \<^verbatim>\<open>mMulticastListenersTable.Add\<close> with the address
  and the error returned, the addresses removed, the notifications sent on the backbone
  and the responses sent on the mesh.
\<close>

fun addCalls :: "action list \<Rightarrow> (ip6_address \<times> otError) list" where
  "addCalls [] = []"
| "addCalls (ListenersAddCall a x r # acts) = (a, r) # addCalls acts"
| "addCalls (_ # acts) = addCalls acts"

fun addExpiries :: "action list \<Rightarrow> time_milli list" where
  "addExpiries [] = []"
| "addExpiries (ListenersAddCall a x r # acts) = x # addExpiries acts"
| "addExpiries (_ # acts) = addExpiries acts"

fun removeCalls :: "action list \<Rightarrow> ip6_address list" where
  "removeCalls [] = []"
| "removeCalls (ListenersRemoveCall a # acts) = a # removeCalls acts"
| "removeCalls (_ # acts) = removeCalls acts"

fun notifications :: "action list \<Rightarrow> (ip6_address option list \<times> 32 word option) list" where
  "notifications [] = []"
| "notifications (BackboneMlrNotification sent t # acts) = (sent, t) # notifications acts"
| "notifications (_ # acts) = notifications acts"

fun mlrResponses :: "action list \<Rightarrow> (MlrStatus \<times> ip6_address option list option) list" where
  "mlrResponses [] = []"
| "mlrResponses (MlrResponse st failed # acts) = (st, failed) # mlrResponses acts"
| "mlrResponses (_ # acts) = mlrResponses acts"

text \<open>The addresses of a list of \<open>Add\<close> calls that failed, and those that were registered.\<close>

definition failedOf :: "(ip6_address \<times> otError) list \<Rightarrow> ip6_address list" where
  "failedOf rs = map fst (filter (\<lambda>p. snd p \<noteq> OT_ERROR_NONE) rs)"

definition succOf :: "(ip6_address \<times> otError) list \<Rightarrow> ip6_address list" where
  "succOf rs = map fst (filter (\<lambda>p. snd p = OT_ERROR_NONE) rs)"

text \<open>
  The errors that the \<^verbatim>\<open>switch\<close> on the result of \<open>Add\<close> handles; on any other the
  handler stops at \<^verbatim>\<open>OT_ASSERT(false)\<close>. \<open>ListenersAddContract\<close> says that the table
  returns no other.
\<close>

definition expectedAddError :: "otError \<Rightarrow> bool" where
  "expectedAddError r = (r = OT_ERROR_NONE \<or> r = OT_ERROR_INVALID_ARGS \<or> r = OT_ERROR_NO_BUFS)"

definition allExpected :: "(ip6_address \<times> otError) list \<Rightarrow> bool" where
  "allExpected rs = list_all (\<lambda>p. expectedAddError (snd p)) rs"

definition ListenersAddContract :: "('mlt, 'ndp) env \<Rightarrow> bool" where
  "ListenersAddContract e = (\<forall>a x tbl. expectedAddError (fst (ListenersAdd e a x tbl)))"

text \<open>
  The status that the claim about the top-level status describes: the class of the first
  error in the list that is not \<^verbatim>\<open>OT_ERROR_NONE\<close>, success when there is none. An error
  outside the three classes has no status.
\<close>

definition firstNonSuccess :: "otError list \<Rightarrow> otError" where
  "firstNonSuccess rs =
     (case filter (\<lambda>r. r \<noteq> OT_ERROR_NONE) rs of [] \<Rightarrow> OT_ERROR_NONE | r # _ \<Rightarrow> r)"

definition mlrStatusOfError :: "otError \<Rightarrow> MlrStatus option" where
  "mlrStatusOfError r =
     (if r = OT_ERROR_NONE then Some kMlrSuccess
      else if r = OT_ERROR_INVALID_ARGS then Some kMlrInvalid
      else if r = OT_ERROR_NO_BUFS then Some kMlrNoResources
      else None)"

text \<open>
  The update of \<^verbatim>\<open>status\<close> that one result of \<open>Add\<close> causes, as the \<^verbatim>\<open>switch\<close> does it.
\<close>

definition stickyStatus :: "MlrStatus \<Rightarrow> otError \<Rightarrow> MlrStatus" where
  "stickyStatus st r =
     (if st = kMlrSuccess \<and> r = OT_ERROR_INVALID_ARGS then kMlrInvalid
      else if st = kMlrSuccess \<and> r = OT_ERROR_NO_BUFS then kMlrNoResources
      else st)"

text \<open>
  A timeout clamped into an interval, in the words of the specification.
\<close>

definition clampTimeout :: "32 word \<Rightarrow> 32 word \<Rightarrow> 32 word \<Rightarrow> 32 word" where
  "clampTimeout lo hi t = (if t < lo then lo else if hi < t then hi else t)"

subsection \<open>The path of a request through the validation\<close>

text \<open>
  \<open>mlrResponseConfigured\<close>: a response status was configured for the next request
  (\<^verbatim>\<open>ConfigNextMulticastListenerRegistrationResponse\<close>, reference-device builds).
  \<open>mlrValidate\<close> names the way a request leaves the statements before the loop: without
  a response, with a response of a fixed status, or into the loop with the length of
  the address list and the value of \<^verbatim>\<open>timeout\<close>. Lemma \<open>Handle_unfold\<close> proves that the
  handler takes this way.
\<close>

datatype mlr_path = MlrNoResponse | MlrReject MlrStatus | MlrProcess "16 word" "32 word"

definition mlrResponseConfigured :: "('mlt, 'ndp) env \<Rightarrow> ('mlt, 'ndp) manager \<Rightarrow> bool" where
  "mlrResponseConfigured e m =
     (OPENTHREAD_CONFIG_REFERENCE_DEVICE_ENABLE e \<and> mMlrResponseIsSpecified m)"

definition mlrValidate ::
  "('mlt, 'ndp) env \<Rightarrow> ('mlt, 'ndp) manager \<Rightarrow> coap_message \<Rightarrow> mlr_path" where
  "mlrValidate e m aMessage =
     (if \<not> IsConfirmablePostRequest aMessage then MlrNoResponse
      else if mlrResponseConfigured e m then MlrReject (mMlrResponseStatus m)
      else if \<not> IsPrimary e then MlrReject kMlrBbrNotPrimary
      else if FindCommissionerSessionIdTlv aMessage \<noteq> None \<and>
              FindCommissionerSessionIdTlv aMessage \<noteq> GetCommissionerSessionId e
        then MlrReject kMlrGeneralFailure
      else
        (case FindIPv6AddressesTlv aMessage of
           None \<Rightarrow> MlrNoResponse
         | Some addressesLength \<Rightarrow>
             if unat addressesLength mod sizeof_Ip6_Address \<noteq> 0 then MlrReject kMlrGeneralFailure
             else if kIPv6AddressesNumMax e < unat addressesLength div sizeof_Ip6_Address
               then MlrReject kMlrGeneralFailure
             else if FindCommissionerSessionIdTlv aMessage = None then
               MlrProcess addressesLength (GetConfigMlrTimeout e)
             else
               (case FindTimeoutTlv aMessage of
                  None \<Rightarrow> MlrProcess addressesLength (GetConfigMlrTimeout e)
                | Some t \<Rightarrow>
                    if t = UINT32_MAX then MlrReject kMlrNoPersistent
                    else if t = 0 then MlrProcess addressesLength 0
                    else MlrProcess addressesLength
                           (max (min t (kMlrTimeoutMax e)) (kMlrTimeoutMin e)))))"

definition duaResponseConfigured ::
  "('mlt, 'ndp) env \<Rightarrow> ('mlt, 'ndp) manager \<Rightarrow> coap_message \<Rightarrow> bool" where
  "duaResponseConfigured e m aMessage =
     (OPENTHREAD_CONFIG_REFERENCE_DEVICE_ENABLE e \<and> mDuaResponseIsSpecified m \<and>
      (IsUnspecified e (mDuaResponseTargetMlIid m) \<or>
       mDuaResponseTargetMlIid m = snd (FindMeshLocalEidTlv aMessage)))"

subsection \<open>The loop, iteration by iteration\<close>

text \<open>
  The offset of the \<open>k\<close>-th address of the list, the offsets from the \<open>k\<close>-th to the
  \<open>n\<close>-th, and the addresses of a request in the order of its address-list TLV.
\<close>

definition mlrOffset :: "nat \<Rightarrow> 16 word" where
  "mlrOffset k = of_nat (sizeof_Ip6_Address * k)"

definition mlrOffsets :: "nat \<Rightarrow> nat \<Rightarrow> 16 word list" where
  "mlrOffsets k n = map mlrOffset [k..<n]"

definition mlrRequestAddresses :: "coap_message \<Rightarrow> 16 word \<Rightarrow> ip6_address list" where
  "mlrRequestAddresses aMessage addressesLength =
     map (ReadAddress aMessage) (mlrOffsets 0 (unat addressesLength div sizeof_Ip6_Address))"

text \<open>The frame on entry to the handler, and the loop body run over a list of offsets.\<close>

definition mlrEntry :: "('mlt, 'ndp) env \<Rightarrow> ('mlt, 'ndp) manager \<Rightarrow> ('mlt, 'ndp) mlr_frame" where
  "mlrEntry e m =
     \<lparr>error = OT_ERROR_NONE, status = kMlrSuccess,
      addresses = replicate (kIPv6AddressesNumMax e) None,
      failedAddressNum = 0, successAddressNum = 0, timeout = None, this = m, calls = []\<rparr>"

fun mlrSteps ::
  "('mlt, 'ndp) env \<Rightarrow> coap_message \<Rightarrow> 32 word \<Rightarrow> time_milli \<Rightarrow> 16 word list
     \<Rightarrow> ('mlt, 'ndp) mlr_frame \<Rightarrow> fault + ('mlt, 'ndp) mlr_frame" where
  "mlrSteps e aMessage aTimeout expireTime [] f = Inr f"
| "mlrSteps e aMessage aTimeout expireTime (offset # offsets) f =
     (case mlrBody e aMessage aTimeout expireTime offset f of
        Inl x \<Rightarrow> Inl x
      | Inr f' \<Rightarrow> mlrSteps e aMessage aTimeout expireTime offsets f')"

text \<open>
  \<open>mlrLoopState ... k\<close> is the offset and the frame with which the loop condition is
  evaluated for the \<open>k+1\<close>-th time, \<open>None\<close> when the loop has ended or faulted before.
\<close>

fun mlrLoopState ::
  "('mlt, 'ndp) env \<Rightarrow> coap_message \<Rightarrow> 16 word \<Rightarrow> 32 word \<Rightarrow> time_milli
     \<Rightarrow> ('mlt, 'ndp) mlr_frame \<Rightarrow> nat \<Rightarrow> (16 word \<times> ('mlt, 'ndp) mlr_frame) option" where
  "mlrLoopState e aMessage addressesLength aTimeout expireTime f0 0 = Some (0, f0)"
| "mlrLoopState e aMessage addressesLength aTimeout expireTime f0 (Suc k) =
     (case mlrLoopState e aMessage addressesLength aTimeout expireTime f0 k of
        None \<Rightarrow> None
      | Some (offset, f) \<Rightarrow>
          if offset < addressesLength then
            (case mlrBody e aMessage aTimeout expireTime offset f of
               Inl x \<Rightarrow> None
             | Inr f' \<Rightarrow> Some (offset + of_nat sizeof_Ip6_Address, f'))
          else None)"

text \<open>
  The results of the successive \<open>Add\<close> calls for a list of addresses and the table they
  leave; the frame of the loop after the results \<open>rs\<close> when the timeout is not zero,
  and after the removal of the addresses \<open>as\<close> when it is zero.
\<close>

fun addResults ::
  "('mlt, 'ndp) env \<Rightarrow> time_milli \<Rightarrow> ip6_address list \<Rightarrow> 'mlt \<Rightarrow> (ip6_address \<times> otError) list" where
  "addResults e x [] tbl = []"
| "addResults e x (a # as) tbl =
     (a, fst (ListenersAdd e a x tbl)) # addResults e x as (snd (ListenersAdd e a x tbl))"

fun addTable :: "('mlt, 'ndp) env \<Rightarrow> time_milli \<Rightarrow> ip6_address list \<Rightarrow> 'mlt \<Rightarrow> 'mlt" where
  "addTable e x [] tbl = tbl"
| "addTable e x (a # as) tbl = addTable e x as (snd (ListenersAdd e a x tbl))"

definition mlrFrame ::
  "('mlt, 'ndp) env \<Rightarrow> ('mlt, 'ndp) manager \<Rightarrow> 32 word \<Rightarrow> time_milli \<Rightarrow> 'mlt
     \<Rightarrow> (ip6_address \<times> otError) list \<Rightarrow> ('mlt, 'ndp) mlr_frame" where
  "mlrFrame e m t x tbl rs =
     \<lparr>error = OT_ERROR_NONE,
      status = foldl stickyStatus kMlrSuccess (map snd rs),
      addresses = map Some (failedOf rs) @ replicate (kIPv6AddressesNumMax e - length rs) None
                    @ map Some (rev (succOf rs)),
      failedAddressNum = of_nat (length (failedOf rs)),
      successAddressNum = of_nat (length (succOf rs)),
      timeout = Some t,
      this = m\<lparr>mMulticastListenersTable := tbl\<rparr>,
      calls = map (\<lambda>p. ListenersAddCall (fst p) x (snd p)) rs\<rparr>"

definition mlrFrame0 ::
  "('mlt, 'ndp) env \<Rightarrow> ('mlt, 'ndp) manager \<Rightarrow> 'mlt \<Rightarrow> ip6_address list
     \<Rightarrow> ('mlt, 'ndp) mlr_frame" where
  "mlrFrame0 e m tbl as =
     \<lparr>error = OT_ERROR_NONE, status = kMlrSuccess,
      addresses = replicate (kIPv6AddressesNumMax e) None,
      failedAddressNum = 0, successAddressNum = 0, timeout = Some 0,
      this = m\<lparr>mMulticastListenersTable := tbl\<rparr>,
      calls = map ListenersRemoveCall as\<rparr>"

section \<open>Tables and an environment for concrete runs\<close>

text \<open>
  Modelled from the spec: the Multicast Listener Table, whose source
  (\<^verbatim>\<open>multicast_listeners_table.cpp\<close>) is not among the files at hand. It stores pairs of an
  address and an expiry time with unique addresses and a capacity; an add of an address
  that is present refreshes its expiry; an add fails with an invalid argument for an
  address that the table does not accept and with no buffers when the table is full;
  expiry removes the entries whose expiry time is at or before now.
\<close>

type_synonym listeners_table = "(ip6_address \<times> time_milli) list"

definition specListenersAdd ::
  "nat \<Rightarrow> (ip6_address \<Rightarrow> bool) \<Rightarrow> ip6_address \<Rightarrow> time_milli \<Rightarrow> listeners_table
     \<Rightarrow> otError \<times> listeners_table" where
  "specListenersAdd capacity accepted a x tbl =
     (if \<not> accepted a then (OT_ERROR_INVALID_ARGS, tbl)
      else if a \<in> fst ` set tbl then
        (OT_ERROR_NONE, map (\<lambda>p. if fst p = a then (a, x) else p) tbl)
      else if capacity \<le> length tbl then (OT_ERROR_NO_BUFS, tbl)
      else (OT_ERROR_NONE, tbl @ [(a, x)]))"

definition specListenersRemove :: "ip6_address \<Rightarrow> listeners_table \<Rightarrow> listeners_table" where
  "specListenersRemove a tbl = filter (\<lambda>p. fst p \<noteq> a) tbl"

definition specListenersExpire :: "time_milli \<Rightarrow> listeners_table \<Rightarrow> listeners_table" where
  "specListenersExpire now tbl = filter (\<lambda>p. \<not> snd p \<le> now) tbl"

definition specListenersClear :: "listeners_table \<Rightarrow> listeners_table" where
  "specListenersClear tbl = []"

text \<open>
  Modelled from the spec: the Neighbor-Discovery Proxy Table, whose source
  (\<^verbatim>\<open>ndproxy_table.cpp\<close>) is not among the files at hand. It stores tuples of a target
  identifier, a mesh-local identifier, the locator of the owning router and an optional
  last transaction time, with unique target identifiers and a capacity; registering a
  present target with another mesh-local identifier is a duplicate, with the same
  identifier a refresh.
\<close>

type_synonym proxy_table =
  "(interface_identifier \<times> interface_identifier \<times> short_address \<times> 32 word option) list"

definition specNdProxyRegister ::
  "nat \<Rightarrow> interface_identifier \<Rightarrow> interface_identifier \<Rightarrow> short_address \<Rightarrow> 32 word option
     \<Rightarrow> proxy_table \<Rightarrow> otError \<times> proxy_table" where
  "specNdProxyRegister capacity target ml rloc ltt tbl =
     (case map_of tbl target of
        Some entry \<Rightarrow>
          if fst entry = ml
          then (OT_ERROR_NONE, map (\<lambda>p. if fst p = target then (target, ml, rloc, ltt) else p) tbl)
          else (OT_ERROR_DUPLICATED, tbl)
      | None \<Rightarrow>
          if capacity \<le> length tbl then (OT_ERROR_NO_BUFS, tbl)
          else (OT_ERROR_NONE, tbl @ [(target, ml, rloc, ltt)]))"

definition specNdProxyIsRegistered :: "interface_identifier \<Rightarrow> proxy_table \<Rightarrow> bool" where
  "specNdProxyIsRegistered target tbl = (map_of tbl target \<noteq> None)"

text \<open>
  An environment with these tables: a primary Backbone Router in a production build,
  tables of capacity two, multicast addresses accepted from \<open>ff04::\<close> on, and the
  domain prefix \<open>fd00:7d03:7d03:7d03::/64\<close>.
\<close>

definition exampleEnv :: "(listeners_table, proxy_table) env" where
  "exampleEnv =
     \<lparr>OPENTHREAD_CONFIG_REFERENCE_DEVICE_ENABLE = False,
      kIPv6AddressesNumMin = 1,
      kIPv6AddressesNumMax = 15,
      kMlrTimeoutMin = 300,
      kMlrTimeoutMax = 2147483,
      kTimerInterval = 1000,
      kCodeEmpty = 0,
      kCodeResponseMin = 65,
      DuaStatusOfUint8 = (\<lambda>v. if v = 0 then kDuaSuccess else kDuaGeneralFailure),
      GetState = OT_BACKBONE_ROUTER_STATE_PRIMARY,
      IsPrimary = True,
      GetConfigMlrTimeout = 3600,
      IsDomainUnicast = (\<lambda>a. drop_bit 64 a = 0xfd007d037d037d03),
      GetCommissionerSessionId = Some 7,
      GetNow = 5000,
      SecToMsec = (\<lambda>s. s * 1000),
      Resolve = (\<lambda>a. (OT_ERROR_NOT_FOUND, 0)),
      GetRloc16 = 0x4400,
      GetIid = ucast,
      IsRoutingLocator = (\<lambda>iid. drop_bit 16 iid = 0x000000fffe00),
      GetLocator = ucast,
      IsUnspecified = (\<lambda>iid. iid = 0),
      ListenersAdd = specListenersAdd 2 (\<lambda>a. 0xff040000000000000000000000000000 \<le> a),
      ListenersRemove = specListenersRemove,
      ListenersExpire = specListenersExpire 5000,
      ListenersClear = specListenersClear,
      NdProxyRegister = specNdProxyRegister 2,
      NdProxyIsRegistered = specNdProxyIsRegistered\<rparr>"

definition exampleManager :: "(listeners_table, proxy_table) manager" where
  "exampleManager =
     \<lparr>mNdProxyTable = [],
      mMulticastListenersTable = [],
      mTimer = Some 6000,
      mDuaResponseStatus = 0,
      mMlrResponseStatus = kMlrSuccess,
      mDuaResponseTargetMlIid = 0,
      mDuaResponseIsSpecified = False,
      mMlrResponseIsSpecified = False\<rparr>"

text \<open>
  A confirmable MLR request without commissioner session and timeout TLVs whose address
  list holds \<open>ff04::1\<close> and then \<open>ff04::2\<close>.
\<close>

definition exampleMlrRequest :: coap_message where
  "exampleMlrRequest =
     \<lparr>IsConfirmablePostRequest = True,
      FindCommissionerSessionIdTlv = None,
      FindTimeoutTlv = None,
      FindIPv6AddressesTlv = Some 32,
      ReadAddress = (\<lambda>offset. if offset = 0 then 0xff040000000000000000000000000001
                               else 0xff040000000000000000000000000002),
      FindTargetTlv = (OT_ERROR_NOT_FOUND, 0),
      FindMeshLocalEidTlv = (OT_ERROR_NOT_FOUND, 0),
      FindLastTransactionTimeTlv = None\<rparr>"

text \<open>
  A confirmable DUA request for the target \<open>fd00:7d03:7d03:7d03::9\<close> with mesh-local
  identifier 5, and a sender whose address carries the routing locator \<open>0x4401\<close>.
\<close>

definition exampleDuaRequest :: coap_message where
  "exampleDuaRequest =
     \<lparr>IsConfirmablePostRequest = True,
      FindCommissionerSessionIdTlv = None,
      FindTimeoutTlv = None,
      FindIPv6AddressesTlv = None,
      ReadAddress = (\<lambda>offset. 0),
      FindTargetTlv = (OT_ERROR_NONE, 0xfd007d037d037d030000000000000009),
      FindMeshLocalEidTlv = (OT_ERROR_NONE, 5),
      FindLastTransactionTimeTlv = None\<rparr>"

definition exampleRlocSender :: message_info where
  "exampleRlocSender = \<lparr>GetPeerAddr = 0xfdde00000000000000000000fffe004401\<rparr>"

definition exampleOtherSender :: message_info where
  "exampleOtherSender = \<lparr>GetPeerAddr = 0xfdde0000000000001234567812345678\<rparr>"

text \<open>
  Further requests, made from the first: four addresses of which the second is not
  accepted by the table and the fourth finds it full; an address list of 17 bytes; no
  address list; and requests with the commissioner session TLV of the network data and a
  timeout TLV of \<open>UINT32_MAX\<close> (with a list of 32 and of 17 bytes), of 100 seconds and of
  zero.
\<close>

definition exampleMixedRequest :: coap_message where
  "exampleMixedRequest =
     exampleMlrRequest
       \<lparr>FindIPv6AddressesTlv := Some 64,
        ReadAddress := (\<lambda>offset. if offset = 0 then 0xff040000000000000000000000000001
                                 else if offset = 16 then 0xff020000000000000000000000000001
                                 else if offset = 32 then 0xff040000000000000000000000000002
                                 else 0xff040000000000000000000000000003)\<rparr>"

definition exampleOddLengthRequest :: coap_message where
  "exampleOddLengthRequest = exampleMlrRequest\<lparr>FindIPv6AddressesTlv := Some 17\<rparr>"

definition exampleNoAddressesRequest :: coap_message where
  "exampleNoAddressesRequest = exampleMlrRequest\<lparr>FindIPv6AddressesTlv := None\<rparr>"

definition exampleNoPersistentRequest :: coap_message where
  "exampleNoPersistentRequest =
     exampleMlrRequest\<lparr>FindCommissionerSessionIdTlv := Some 7, FindTimeoutTlv := Some 4294967295\<rparr>"

definition exampleNoPersistentOddRequest :: coap_message where
  "exampleNoPersistentOddRequest =
     exampleMlrRequest\<lparr>FindCommissionerSessionIdTlv := Some 7, FindTimeoutTlv := Some 4294967295,
                         FindIPv6AddressesTlv := Some 17\<rparr>"

definition exampleShortTimeoutRequest :: coap_message where
  "exampleShortTimeoutRequest =
     exampleMlrRequest\<lparr>FindCommissionerSessionIdTlv := Some 7, FindTimeoutTlv := Some 100\<rparr>"


text \<open>
  Further environments and managers: a router that is not primary, in a production and
  in a reference-device build; a disabled router; a manager for which the status of the
  next MLR response was configured as success; and managers whose tables hold entries.
\<close>

definition exampleSecondaryEnv :: "(listeners_table, proxy_table) env" where
  "exampleSecondaryEnv =
     exampleEnv\<lparr>GetState := OT_BACKBONE_ROUTER_STATE_SECONDARY, IsPrimary := False\<rparr>"

definition exampleReferenceSecondaryEnv :: "(listeners_table, proxy_table) env" where
  "exampleReferenceSecondaryEnv =
     exampleSecondaryEnv\<lparr>OPENTHREAD_CONFIG_REFERENCE_DEVICE_ENABLE := True\<rparr>"

definition exampleDisabledEnv :: "(listeners_table, proxy_table) env" where
  "exampleDisabledEnv =
     exampleEnv\<lparr>GetState := OT_BACKBONE_ROUTER_STATE_DISABLED, IsPrimary := False\<rparr>"

definition exampleConfiguredManager :: "(listeners_table, proxy_table) manager" where
  "exampleConfiguredManager = exampleManager\<lparr>mMlrResponseIsSpecified := True\<rparr>"

definition exampleBusyManager :: "(listeners_table, proxy_table) manager" where
  "exampleBusyManager =
     exampleManager\<lparr>mNdProxyTable := [(9, 5, 0x4401, None)],
                     mMulticastListenersTable := [(0xff040000000000000000000000000001, 9000)]\<rparr>"

definition exampleRegisteredManager :: "(listeners_table, proxy_table) manager" where
  "exampleRegisteredManager =
     exampleManager\<lparr>mMulticastListenersTable :=
                       [(0xff040000000000000000000000000001, 3605000),
                        (0xff040000000000000000000000000002, 3605000)]\<rparr>"

text \<open>
  The frame of the handler after the loop has run over the four addresses of
  \<open>exampleMixedRequest\<close> with the default timeout of 3600 seconds.
\<close>

definition exampleMixedFrame :: "(listeners_table, proxy_table) mlr_frame" where
  "exampleMixedFrame =
     \<lparr>error = OT_ERROR_NONE,
      status = kMlrInvalid,
      addresses =
        [Some 0xff020000000000000000000000000001, Some 0xff040000000000000000000000000003] @
        replicate 11 None @
        [Some 0xff040000000000000000000000000002, Some 0xff040000000000000000000000000001],
      failedAddressNum = 2,
      successAddressNum = 2,
      timeout = Some 3600,
      this = exampleRegisteredManager,
      calls =
        [ListenersAddCall 0xff040000000000000000000000000001 3605000 OT_ERROR_NONE,
         ListenersAddCall 0xff020000000000000000000000000001 3605000 OT_ERROR_INVALID_ARGS,
         ListenersAddCall 0xff040000000000000000000000000002 3605000 OT_ERROR_NONE,
         ListenersAddCall 0xff040000000000000000000000000003 3605000 OT_ERROR_NO_BUFS]\<rparr>"

section \<open>The loop and the exit block, computed\<close>

lemma mlrOffsets_unfold: "k < n \<Longrightarrow> mlrOffsets k n = mlrOffset k # mlrOffsets (Suc k) n"
  by (simp add: mlrOffsets_def upt_conv_Cons)

lemma mlrOffsets_empty: "n \<le> k \<Longrightarrow> mlrOffsets k n = []"
  by (simp add: mlrOffsets_def)

lemma mlrOffset_0: "mlrOffset 0 = 0"
  by (simp add: mlrOffset_def)

lemma mlrOffset_Suc: "mlrOffset k + of_nat sizeof_Ip6_Address = mlrOffset (Suc k)"
  by (simp add: mlrOffset_def algebra_simps)

lemma mlrOffset_less:
  assumes "unat (len :: 16 word) = sizeof_Ip6_Address * n" "k \<le> n"
  shows "(mlrOffset k < len) = (k < n)"
proof -
  have "unat len < 65536" using unsigned_less [of len, where 'a = nat] by simp
  then have "sizeof_Ip6_Address * k < 65536"
    using assms by (simp add: sizeof_Ip6_Address_def)
  then have "unat (mlrOffset k) = sizeof_Ip6_Address * k"
    unfolding mlrOffset_def by (simp only: unat_of_nat) simp
  then show ?thesis using assms(1) by (simp add: word_less_nat_alt sizeof_Ip6_Address_def)
qed

lemma mlrLoop_steps:
  assumes "unat addressesLength = sizeof_Ip6_Address * n" "k \<le> n"
  shows "mlrLoop e aMessage addressesLength aTimeout expireTime (mlrOffset k) f =
         Some (mlrSteps e aMessage aTimeout expireTime (mlrOffsets k n) f)"
  using assms(2)
proof (induction "n - k" arbitrary: k f)
  case 0
  then have "k = n" by simp
  then show ?case using mlrOffset_less [OF assms(1), of n]
    by (subst mlrLoop.simps) (simp add: mlrOffsets_empty)
next
  case (Suc d)
  then have kn: "k < n" by simp
  have lt: "mlrOffset k < addressesLength"
    using mlrOffset_less [OF assms(1), of k] kn by simp
  have IH: "\<And>f'. mlrLoop e aMessage addressesLength aTimeout expireTime (mlrOffset (Suc k)) f' =
                 Some (mlrSteps e aMessage aTimeout expireTime (mlrOffsets (Suc k) n) f')"
    using Suc.hyps(1) [of "Suc k"] Suc.hyps(2) kn by simp
  show ?case
    by (subst mlrLoop.simps)
       (simp add: lt mlrOffset_Suc IH mlrOffsets_unfold [OF kn] split: sum.splits)
qed

lemma length_failedOf_succOf: "length (failedOf rs) + length (succOf rs) = length rs"
  by (induction rs) (auto simp: failedOf_def succOf_def)

lemma failedOf_snoc:
  "failedOf (rs @ [(a, r)]) = (if r \<noteq> OT_ERROR_NONE then failedOf rs @ [a] else failedOf rs)"
  by (simp add: failedOf_def)

lemma succOf_snoc:
  "succOf (rs @ [(a, r)]) = (if r = OT_ERROR_NONE then succOf rs @ [a] else succOf rs)"
  by (simp add: succOf_def)

lemma arrayStore_front:
  assumes "length fl + length sl < n"
  shows "arrayStore (map Some fl @ replicate (n - (length fl + length sl)) None @ map Some (rev sl))
           (int (length fl)) a =
         Inr (map Some (fl @ [a]) @ replicate (n - Suc (length fl + length sl)) None
                @ map Some (rev sl))"
proof -
  obtain g where g: "n - (length fl + length sl) = Suc g" "n - Suc (length fl + length sl) = g"
    using assms by (metis Suc_diff_Suc)
  have "(map Some fl @ None # replicate g None @ map Some (rev sl))[length (map Some fl) := Some a]
        = map Some fl @ Some a # replicate g None @ map Some (rev sl)"
    by (rule list_update_length)
  then show ?thesis
    using assms by (simp add: arrayStore_def g)
qed

lemma arrayStore_back:
  assumes "length fl + length sl < n"
  shows "arrayStore (map Some fl @ replicate (n - (length fl + length sl)) None @ map Some (rev sl))
           (int n - int (Suc (length sl))) a =
         Inr (map Some fl @ replicate (n - Suc (length fl + length sl)) None
                @ map Some (rev (sl @ [a])))"
proof -
  obtain g where g: "n - (length fl + length sl) = Suc g" "n - Suc (length fl + length sl) = g"
    using assms by (metis Suc_diff_Suc)
  have n: "n = length fl + Suc g + length sl" using assms g by simp
  have idx: "nat (int n - int (Suc (length sl))) = length fl + g"
    by (simp add: n)
  have "((map Some fl @ replicate g None) @ None # map Some (rev sl))
          [length (map Some fl @ replicate g None) := Some a]
        = (map Some fl @ replicate g None) @ Some a # map Some (rev sl)"
    by (rule list_update_length)
  then have "(map Some fl @ replicate (Suc g) None @ map Some (rev sl))
               [nat (int n - int (Suc (length sl))) := Some a]
             = map Some fl @ replicate g None @ map Some (rev (sl @ [a]))"
    unfolding idx by (simp add: replicate_app_Cons_same)
  moreover have "0 \<le> int n - int (Suc (length sl))"
    "int n - int (Suc (length sl)) < int (length (map Some fl @ replicate (Suc g) None @ map Some (rev sl)))"
    by (simp_all add: n)
  ultimately show ?thesis
    unfolding arrayStore_def g by simp
qed

lemma unat_count: "k \<le> 255 \<Longrightarrow> unat (of_nat k :: 8 word) = k"
  by (simp only: unat_of_nat) simp

lemma uint_count: "k \<le> 255 \<Longrightarrow> uint (of_nat k :: 8 word) = int k"
  using unat_count [of k] by (simp only: uint_nat)

lemma count_Suc: "(of_nat k :: 8 word) + 1 = of_nat (Suc k)"
  by simp

lemma mlrBody_frame:
  assumes t: "t \<noteq> 0" and room: "length rs < kIPv6AddressesNumMax e"
    and max: "kIPv6AddressesNumMax e \<le> 255"
    and add: "ListenersAdd e (ReadAddress aMessage offset) x tbl = (r, tbl')"
  shows "mlrBody e aMessage t x offset (mlrFrame e m t x tbl rs) =
         (if expectedAddError r
          then Inr (mlrFrame e m t x tbl' (rs @ [(ReadAddress aMessage offset, r)]))
          else Inl AssertUnexpectedAddError)"
proof -
  let ?a = "ReadAddress aMessage offset"
  let ?n = "kIPv6AddressesNumMax e"
  have len: "length (failedOf rs) + length (succOf rs) = length rs"
    by (rule length_failedOf_succOf)
  have lt: "length (failedOf rs) + length (succOf rs) < ?n"
    using room len by simp
  have fl: "unat (of_nat (length (failedOf rs)) :: 8 word) = length (failedOf rs)"
    using lt max by (intro unat_count) simp
  have sl: "unat (of_nat (Suc (length (succOf rs))) :: 8 word) = Suc (length (succOf rs))"
    using lt max by (intro unat_count) simp
  have fl': "uint (of_nat (length (failedOf rs)) :: 8 word) = int (length (failedOf rs))"
    using lt max by (intro uint_count) simp
  have sl': "uint (of_nat (Suc (length (succOf rs))) :: 8 word) = int (Suc (length (succOf rs)))"
    using lt max by (intro uint_count) simp
  have gap: "?n - length rs = ?n - (length (failedOf rs) + length (succOf rs))"
    "?n - Suc (length rs) = ?n - Suc (length (failedOf rs) + length (succOf rs))"
    using len by simp_all
  note st_front = arrayStore_front [OF lt, of "?a"]
  note st_back = arrayStore_back [OF lt, of "?a"]
  show ?thesis
  proof (cases "r = OT_ERROR_NONE")
    case True
    then show ?thesis
      using t add st_back
      by (simp add: mlrBody_def mlrFrame_def Let_def expectedAddError_def count_Suc sl sl' gap
            failedOf_snoc succOf_snoc stickyStatus_def del: of_nat_Suc)
  next
    case False
    show ?thesis
    proof (cases "r = OT_ERROR_INVALID_ARGS \<or> r = OT_ERROR_NO_BUFS")
      case True
      then show ?thesis
        using t add st_front False
        by (auto simp add: mlrBody_def mlrFrame_def Let_def expectedAddError_def count_Suc fl fl' gap
              failedOf_snoc succOf_snoc stickyStatus_def simp del: of_nat_Suc)
    next
      case False
      then show ?thesis
        using t add \<open>r \<noteq> OT_ERROR_NONE\<close>
        by (simp add: mlrBody_def mlrFrame_def Let_def expectedAddError_def)
    qed
  qed
qed

lemma mlrSteps_frame:
  assumes t: "t \<noteq> 0" and max: "kIPv6AddressesNumMax e \<le> 255"
  shows "length rs + length offsets \<le> kIPv6AddressesNumMax e \<Longrightarrow>
         mlrSteps e aMessage t x offsets (mlrFrame e m t x tbl rs) =
         (if allExpected (addResults e x (map (ReadAddress aMessage) offsets) tbl)
          then Inr (mlrFrame e m t x (addTable e x (map (ReadAddress aMessage) offsets) tbl)
                      (rs @ addResults e x (map (ReadAddress aMessage) offsets) tbl))
          else Inl AssertUnexpectedAddError)"
proof (induction offsets arbitrary: tbl rs)
  case Nil
  then show ?case by (simp add: allExpected_def)
next
  case (Cons offset offsets)
  obtain r tbl' where add: "ListenersAdd e (ReadAddress aMessage offset) x tbl = (r, tbl')"
    by (cases "ListenersAdd e (ReadAddress aMessage offset) x tbl")
  have room: "length rs < kIPv6AddressesNumMax e"
    using Cons.prems by simp
  have rest: "length (rs @ [(ReadAddress aMessage offset, r)]) + length offsets
                \<le> kIPv6AddressesNumMax e"
    using Cons.prems by simp
  show ?case
    using mlrBody_frame [OF t room max add, of m] Cons.IH [OF rest, of tbl'] add
    by (simp add: allExpected_def)
qed

lemma mlrSteps_frame0:
  "mlrSteps e aMessage 0 x offsets (mlrFrame0 e m tbl as) =
   Inr (mlrFrame0 e m (fold (ListenersRemove e) (map (ReadAddress aMessage) offsets) tbl)
          (as @ map (ReadAddress aMessage) offsets))"
proof (induction offsets arbitrary: tbl as)
  case Nil
  then show ?case by simp
next
  case (Cons offset offsets)
  have "mlrBody e aMessage 0 x offset (mlrFrame0 e m tbl as) =
        Inr (mlrFrame0 e m (ListenersRemove e (ReadAddress aMessage offset) tbl)
               (as @ [ReadAddress aMessage offset]))"
    by (simp add: mlrBody_def mlrFrame0_def Let_def)
  then show ?case using Cons.IH by simp
qed

lemma count_pos: "k \<le> 255 \<Longrightarrow> (0 < (of_nat k :: 8 word)) = (k \<noteq> 0)"
  using unat_count [of k] by (simp add: word_less_nat_alt)

lemma arrayRead_front: "arrayRead (map Some fl @ rest) 0 (length fl) = Inr (map Some fl)"
  by (simp add: arrayRead_def)

lemma arrayRead_back:
  assumes "length front + length sl = n"
  shows "arrayRead (front @ map Some sl) (int n - int (length sl)) (length sl) = Inr (map Some sl)"
proof -
  have "nat (int n - int (length sl)) = length front" using assms by simp
  then show ?thesis using assms by (simp add: arrayRead_def)
qed

lemma mlrExit_frame:
  assumes min: "kIPv6AddressesNumMin e \<le> 1" and max: "kIPv6AddressesNumMax e \<le> 255"
    and len: "length rs \<le> kIPv6AddressesNumMax e"
  shows "mlrExit e (mlrFrame e m t x tbl rs) =
         Inr (map (\<lambda>p. ListenersAddCall (fst p) x (snd p)) rs @
              [MlrResponse (foldl stickyStatus kMlrSuccess (map snd rs))
                 (if failedOf rs = [] then None else Some (map Some (failedOf rs)))] @
              (if succOf rs = [] then []
               else [BackboneMlrNotification (map Some (rev (succOf rs))) (Some t)]),
              m\<lparr>mMulticastListenersTable := tbl\<rparr>)"
proof -
  let ?n = "kIPv6AddressesNumMax e"
  let ?fl = "failedOf rs" and ?sl = "succOf rs"
  have sum: "length ?fl + length ?sl = length rs" by (rule length_failedOf_succOf)
  have fl: "length ?fl \<le> 255" and sl: "length ?sl \<le> 255" "length ?sl \<le> ?n"
    using sum len max by simp_all
  have rsp: "SendMulticastListenerRegistrationResponse st
               (map Some ?fl @ replicate (?n - length rs) None @ map Some (rev ?sl))
               (of_nat (length ?fl)) =
             Inr [MlrResponse st (if ?fl = [] then None else Some (map Some ?fl))]" for st
    using arrayRead_front [of ?fl]
    by (simp add: SendMulticastListenerRegistrationResponse_def count_pos [OF fl] unat_count [OF fl])
  have "length (map Some ?fl @ replicate (?n - length rs) None) + length (rev ?sl) = ?n"
    using sum len by simp
  from arrayRead_back [OF this]
  have rd: "arrayRead (map Some ?fl @ replicate (?n - length rs) None @ map Some (rev ?sl))
              (int ?n - int (length ?sl)) (length ?sl) = Inr (map Some (rev ?sl))"
    by simp
  have ntf: "?sl \<noteq> [] \<Longrightarrow>
             SendBackboneMulticastListenerRegistration e
               (map Some ?fl @ replicate (?n - length rs) None @ map Some (rev ?sl))
               (int ?n - int (length ?sl)) (of_nat (length ?sl)) tt =
             Inr [BackboneMlrNotification (map Some (rev ?sl)) tt]" for tt
  proof -
    assume "?sl \<noteq> []"
    then have "Suc 0 \<le> length ?sl" by (cases ?sl) simp_all
    then show ?thesis
      using rd min sl(2)
      by (simp add: SendBackboneMulticastListenerRegistration_def unat_count [OF sl(1)])
  qed
  show ?thesis
    using rsp ntf
    by (simp add: mlrExit_def mlrFrame_def count_pos [OF sl(1)] unat_count [OF sl(1)]
          uint_count [OF sl(1)])
qed

lemma not_less_UINT32_MAX: "(\<not> t < UINT32_MAX) = (t = UINT32_MAX)"
proof -
  have "t \<le> (- 1 :: 32 word)" by simp
  moreover have "(- 1 :: 32 word) = UINT32_MAX" by (simp add: UINT32_MAX_def)
  ultimately have "t \<le> UINT32_MAX" by (simp only:)
  then show ?thesis by auto
qed

lemma mlrExit_early:
  "mlrExit e (mlrEntry e m\<lparr>error := err, status := st, timeout := tt, this := m'\<rparr>) =
   Inr (if err = OT_ERROR_NONE then [MlrResponse st None] else [], m')"
  by (simp add: mlrExit_def mlrEntry_def SendMulticastListenerRegistrationResponse_def)

lemma Handle_unfold:
  "HandleMulticastListenerRegistration e m aMessage =
     (case mlrValidate e m aMessage of
        MlrNoResponse \<Rightarrow> Some (Inr ([], m))
      | MlrReject st \<Rightarrow>
          Some (Inr ([MlrResponse st None],
                     if mlrResponseConfigured e m then m\<lparr>mMlrResponseIsSpecified := False\<rparr> else m))
      | MlrProcess addressesLength t \<Rightarrow> mlrRegister e aMessage addressesLength t (mlrEntry e m))"
proof -
  have ex: "mlrExit e (mlrEntry e m\<lparr>error := err\<rparr>) =
              Inr (if err = OT_ERROR_NONE then [MlrResponse kMlrSuccess None] else [], m)"
       "mlrExit e (mlrEntry e m\<lparr>status := st\<rparr>) = Inr ([MlrResponse st None], m)"
       "mlrExit e (mlrEntry e m\<lparr>this := m', status := st\<rparr>) = Inr ([MlrResponse st None], m')"
       "mlrExit e (mlrEntry e m\<lparr>error := err, timeout := tt\<rparr>) =
              Inr (if err = OT_ERROR_NONE then [MlrResponse kMlrSuccess None] else [], m)"
       "mlrExit e (mlrEntry e m\<lparr>status := st, timeout := tt\<rparr>) = Inr ([MlrResponse st None], m)"
    for err st m' tt
    by (simp_all add: mlrExit_def mlrEntry_def SendMulticastListenerRegistrationResponse_def)
  show ?thesis
    unfolding HandleMulticastListenerRegistration_def mlrEntry_def [symmetric] Let_def
    by (auto simp: mlrValidate_def mlrResponseConfigured_def mlrAddresses_def ex
          not_less_UINT32_MAX not_le
          split: option.splits)
qed

lemma mlrEntry_frame:
  "mlrEntry e m\<lparr>timeout := Some t\<rparr> = mlrFrame e m t x (mMulticastListenersTable m) []"
  by (simp add: mlrEntry_def mlrFrame_def failedOf_def succOf_def)

lemma mlrEntry_frame0:
  "mlrEntry e m\<lparr>timeout := Some 0\<rparr> = mlrFrame0 e m (mMulticastListenersTable m) []"
  by (simp add: mlrEntry_def mlrFrame0_def)

lemma length_addResults: "length (addResults e x as tbl) = length as"
  by (induction as arbitrary: tbl) simp_all

lemma mlrRegister_add:
  assumes t: "t \<noteq> 0" and min: "kIPv6AddressesNumMin e \<le> 1" and max: "kIPv6AddressesNumMax e \<le> 255"
    and len: "unat addressesLength mod sizeof_Ip6_Address = 0"
    and cnt: "unat addressesLength div sizeof_Ip6_Address \<le> kIPv6AddressesNumMax e"
    and rs: "rs = addResults e (GetNow e + SecToMsec e t)
                    (mlrRequestAddresses aMessage addressesLength) (mMulticastListenersTable m)"
  shows "mlrRegister e aMessage addressesLength t (mlrEntry e m) =
         (if allExpected rs then
            Some (Inr (map (\<lambda>p. ListenersAddCall (fst p) (GetNow e + SecToMsec e t) (snd p)) rs @
                       [MlrResponse (foldl stickyStatus kMlrSuccess (map snd rs))
                          (if failedOf rs = [] then None else Some (map Some (failedOf rs)))] @
                       (if succOf rs = [] then []
                        else [BackboneMlrNotification (map Some (rev (succOf rs))) (Some t)]),
                       m\<lparr>mMulticastListenersTable :=
                           addTable e (GetNow e + SecToMsec e t)
                             (mlrRequestAddresses aMessage addressesLength)
                             (mMulticastListenersTable m)\<rparr>))
          else Some (Inl AssertUnexpectedAddError))"
proof -
  let ?n = "unat addressesLength div sizeof_Ip6_Address"
  let ?x = "GetNow e + SecToMsec e t"
  have n: "unat addressesLength = sizeof_Ip6_Address * ?n"
    using len by (simp add: sizeof_Ip6_Address_def) presburger
  have loop: "mlrLoop e aMessage addressesLength t ?x 0 f =
              Some (mlrSteps e aMessage t ?x (mlrOffsets 0 ?n) f)" for f
    using mlrLoop_steps [OF n, of 0 e aMessage t ?x f] by (simp add: mlrOffset_0)
  have offs: "length (mlrOffsets 0 ?n) = ?n" by (simp add: mlrOffsets_def)
  have room: "length ([] :: (ip6_address \<times> otError) list) + length (mlrOffsets 0 ?n)
                \<le> kIPv6AddressesNumMax e"
    using cnt offs by simp
  have lrs: "length rs \<le> kIPv6AddressesNumMax e"
    using cnt offs by (simp add: rs length_addResults mlrRequestAddresses_def)
  show ?thesis
    using mlrSteps_frame [OF t max room, where m = m and aMessage = aMessage and x = "?x"
                            and tbl = "mMulticastListenersTable m"]
      mlrExit_frame [OF min max lrs, where m = m and t = t and x = "?x"]
    by (simp add: mlrRegister_def Let_def loop mlrEntry_frame [where x = "?x"] rs
          mlrRequestAddresses_def)
qed

lemma mlrRegister_remove:
  assumes len: "unat addressesLength mod sizeof_Ip6_Address = 0"
  shows "mlrRegister e aMessage addressesLength 0 (mlrEntry e m) =
         Some (Inr (map ListenersRemoveCall (mlrRequestAddresses aMessage addressesLength) @
                    [MlrResponse kMlrSuccess None],
                    m\<lparr>mMulticastListenersTable :=
                        fold (ListenersRemove e) (mlrRequestAddresses aMessage addressesLength)
                          (mMulticastListenersTable m)\<rparr>))"
proof -
  let ?n = "unat addressesLength div sizeof_Ip6_Address"
  let ?x = "GetNow e + SecToMsec e 0"
  have n: "unat addressesLength = sizeof_Ip6_Address * ?n"
    using len by (simp add: sizeof_Ip6_Address_def) presburger
  have loop: "mlrLoop e aMessage addressesLength 0 ?x 0 f =
              Some (mlrSteps e aMessage 0 ?x (mlrOffsets 0 ?n) f)" for f
    using mlrLoop_steps [OF n, of 0 e aMessage 0 ?x f] by (simp add: mlrOffset_0)
  have ex: "mlrExit e (mlrFrame0 e m tbl as) =
            Inr (map ListenersRemoveCall as @ [MlrResponse kMlrSuccess None],
                 m\<lparr>mMulticastListenersTable := tbl\<rparr>)" for tbl as
    by (simp add: mlrExit_def mlrFrame0_def SendMulticastListenerRegistrationResponse_def)
  show ?thesis
    by (simp add: mlrRegister_def Let_def loop mlrEntry_frame0 mlrSteps_frame0 ex
          mlrRequestAddresses_def)
qed

lemma addCalls_append: "addCalls (xs @ ys) = addCalls xs @ addCalls ys"
  by (induction xs rule: addCalls.induct) simp_all

lemma addExpiries_append: "addExpiries (xs @ ys) = addExpiries xs @ addExpiries ys"
  by (induction xs rule: addExpiries.induct) simp_all

lemma removeCalls_append: "removeCalls (xs @ ys) = removeCalls xs @ removeCalls ys"
  by (induction xs rule: removeCalls.induct) simp_all

lemma notifications_append: "notifications (xs @ ys) = notifications xs @ notifications ys"
  by (induction xs rule: notifications.induct) simp_all

lemma mlrResponses_append: "mlrResponses (xs @ ys) = mlrResponses xs @ mlrResponses ys"
  by (induction xs rule: mlrResponses.induct) simp_all

lemma observe_add_calls:
  "addCalls (map (\<lambda>p. ListenersAddCall (fst p) x (snd p)) rs) = rs"
  "addExpiries (map (\<lambda>p. ListenersAddCall (fst p) x (snd p)) rs) = replicate (length rs) x"
  "removeCalls (map (\<lambda>p. ListenersAddCall (fst p) x (snd p)) rs) = []"
  "notifications (map (\<lambda>p. ListenersAddCall (fst p) x (snd p)) rs) = []"
  "mlrResponses (map (\<lambda>p. ListenersAddCall (fst p) x (snd p)) rs) = []"
  by (induction rs) simp_all

lemma observe_remove_calls:
  "addCalls (map ListenersRemoveCall as) = []"
  "addExpiries (map ListenersRemoveCall as) = []"
  "removeCalls (map ListenersRemoveCall as) = as"
  "notifications (map ListenersRemoveCall as) = []"
  "mlrResponses (map ListenersRemoveCall as) = []"
  by (induction as) simp_all

lemmas observe_append =
  addCalls_append addExpiries_append removeCalls_append notifications_append mlrResponses_append

lemma mlrValidate_Process:
  assumes "mlrValidate e m aMessage = MlrProcess addressesLength t"
  shows "unat addressesLength mod sizeof_Ip6_Address = 0"
    and "unat addressesLength div sizeof_Ip6_Address \<le> kIPv6AddressesNumMax e"
    and "FindIPv6AddressesTlv aMessage = Some addressesLength"
  using assms by (auto simp: mlrValidate_def split: if_splits option.splits)

lemma contract_allExpected: "ListenersAddContract e \<Longrightarrow> allExpected (addResults e x as tbl)"
  by (induction as arbitrary: tbl) (simp_all add: allExpected_def ListenersAddContract_def)

lemma map_fst_addResults: "map fst (addResults e x as tbl) = as"
  by (induction as arbitrary: tbl) simp_all

lemma foldl_stickyStatus_set: "st \<noteq> kMlrSuccess \<Longrightarrow> foldl stickyStatus st rs = st"
  by (induction rs) (simp_all add: stickyStatus_def)

lemma stickyStatus_first:
  "list_all expectedAddError rs \<Longrightarrow>
   Some (foldl stickyStatus kMlrSuccess rs) = mlrStatusOfError (firstNonSuccess rs)"
proof (induction rs)
  case Nil
  then show ?case by (simp add: firstNonSuccess_def mlrStatusOfError_def)
next
  case (Cons r rs)
  show ?case
  proof (cases "r = OT_ERROR_NONE")
    case True
    then show ?thesis using Cons by (simp add: firstNonSuccess_def stickyStatus_def)
  next
    case False
    then have r: "r = OT_ERROR_INVALID_ARGS \<or> r = OT_ERROR_NO_BUFS"
      using Cons.prems by (simp add: expectedAddError_def)
    then have one: "Some (stickyStatus kMlrSuccess r) = mlrStatusOfError r"
      "stickyStatus kMlrSuccess r \<noteq> kMlrSuccess"
      by (auto simp: stickyStatus_def mlrStatusOfError_def)
    have "foldl stickyStatus kMlrSuccess (r # rs) = stickyStatus kMlrSuccess r"
      using foldl_stickyStatus_set [OF one(2)] by simp
    moreover have "firstNonSuccess (r # rs) = r"
      using False by (simp add: firstNonSuccess_def)
    ultimately show ?thesis using one(1) by simp
  qed
qed

lemma Handle_cases [consumes 2, case_names NoResponse Reject Remove Add Unexpected]:
  assumes min: "kIPv6AddressesNumMin e \<le> 1" and max: "kIPv6AddressesNumMax e \<le> 255"
  obtains
    "mlrValidate e m aMessage = MlrNoResponse"
    "HandleMulticastListenerRegistration e m aMessage = Some (Inr ([], m))"
  | st where "mlrValidate e m aMessage = MlrReject st"
    "HandleMulticastListenerRegistration e m aMessage =
       Some (Inr ([MlrResponse st None],
                  if mlrResponseConfigured e m then m\<lparr>mMlrResponseIsSpecified := False\<rparr> else m))"
  | addressesLength where "mlrValidate e m aMessage = MlrProcess addressesLength 0"
    "HandleMulticastListenerRegistration e m aMessage =
       Some (Inr (map ListenersRemoveCall (mlrRequestAddresses aMessage addressesLength) @
                  [MlrResponse kMlrSuccess None],
                  m\<lparr>mMulticastListenersTable :=
                      fold (ListenersRemove e) (mlrRequestAddresses aMessage addressesLength)
                        (mMulticastListenersTable m)\<rparr>))"
  | addressesLength t rs where "mlrValidate e m aMessage = MlrProcess addressesLength t" "t \<noteq> 0"
    "rs = addResults e (GetNow e + SecToMsec e t)
            (mlrRequestAddresses aMessage addressesLength) (mMulticastListenersTable m)"
    "allExpected rs"
    "HandleMulticastListenerRegistration e m aMessage =
       Some (Inr (map (\<lambda>p. ListenersAddCall (fst p) (GetNow e + SecToMsec e t) (snd p)) rs @
                  [MlrResponse (foldl stickyStatus kMlrSuccess (map snd rs))
                     (if failedOf rs = [] then None else Some (map Some (failedOf rs)))] @
                  (if succOf rs = [] then []
                   else [BackboneMlrNotification (map Some (rev (succOf rs))) (Some t)]),
                  m\<lparr>mMulticastListenersTable :=
                      addTable e (GetNow e + SecToMsec e t)
                        (mlrRequestAddresses aMessage addressesLength)
                        (mMulticastListenersTable m)\<rparr>))"
  | addressesLength t where "mlrValidate e m aMessage = MlrProcess addressesLength t" "t \<noteq> 0"
    "\<not> allExpected (addResults e (GetNow e + SecToMsec e t)
                      (mlrRequestAddresses aMessage addressesLength) (mMulticastListenersTable m))"
    "HandleMulticastListenerRegistration e m aMessage = Some (Inl AssertUnexpectedAddError)"
proof (cases "mlrValidate e m aMessage")
  case MlrNoResponse
  then show ?thesis using that(1) by (simp add: Handle_unfold)
next
  case (MlrReject st)
  then show ?thesis using that(2) by (simp add: Handle_unfold)
next
  case (MlrProcess addressesLength t)
  note len = mlrValidate_Process(1,2) [OF MlrProcess]
  have run: "HandleMulticastListenerRegistration e m aMessage =
               mlrRegister e aMessage addressesLength t (mlrEntry e m)"
    by (simp add: Handle_unfold MlrProcess)
  show ?thesis
  proof (cases "t = 0")
    case True
    then show ?thesis
      using that(3) [of addressesLength] MlrProcess run mlrRegister_remove [OF len(1), of e aMessage m]
      by simp
  next
    case False
    define rs where "rs = addResults e (GetNow e + SecToMsec e t)
                            (mlrRequestAddresses aMessage addressesLength) (mMulticastListenersTable m)"
    note reg = mlrRegister_add [OF False min max len rs_def]
    show ?thesis
    proof (cases "allExpected rs")
      case True
      then show ?thesis
        using that(4) [OF MlrProcess False rs_def True] run reg by simp
    next
      case no: False
      then show ?thesis
        using that(5) [OF MlrProcess False] run reg by (simp add: rs_def)
    qed
  qed
qed

lemma mlrLoopState_frame:
  assumes t: "t \<noteq> 0" and max: "kIPv6AddressesNumMax e \<le> 255"
    and n: "unat addressesLength = sizeof_Ip6_Address * n" "n \<le> kIPv6AddressesNumMax e"
  shows "mlrLoopState e aMessage addressesLength t x (mlrFrame e m t x tbl0 []) k = Some (offset, f) \<Longrightarrow>
         k \<le> n \<and> offset = mlrOffset k \<and> (\<exists>tbl rs. length rs = k \<and> f = mlrFrame e m t x tbl rs)"
proof (induction k arbitrary: offset f)
  case 0
  then show ?case by (auto simp: mlrOffset_0)
next
  case (Suc k)
  from Suc.prems obtain offset0 f0 where
    prev: "mlrLoopState e aMessage addressesLength t x (mlrFrame e m t x tbl0 []) k = Some (offset0, f0)"
    and lt: "offset0 < addressesLength"
    and body: "mlrBody e aMessage t x offset0 f0 = Inr f"
    and off: "offset = offset0 + of_nat sizeof_Ip6_Address"
    by (auto split: option.splits if_splits sum.splits)
  from Suc.IH [OF prev] obtain tbl rs where
    k: "k \<le> n" "offset0 = mlrOffset k" "length rs = k" "f0 = mlrFrame e m t x tbl rs"
    by blast
  have kn: "k < n" using lt k(1,2) mlrOffset_less [OF n(1) k(1)] by simp
  obtain r tbl' where add: "ListenersAdd e (ReadAddress aMessage offset0) x tbl = (r, tbl')"
    by (cases "ListenersAdd e (ReadAddress aMessage offset0) x tbl")
  have room: "length rs < kIPv6AddressesNumMax e" using kn k(3) n(2) by simp
  have "f = mlrFrame e m t x tbl' (rs @ [(ReadAddress aMessage offset0, r)])"
    using mlrBody_frame [OF t room max add, of m] body k(4) by (simp split: if_splits)
  then have "\<exists>tbl rs'. length rs' = Suc k \<and> f = mlrFrame e m t x tbl rs'"
    using k(3)
    by (intro exI [of _ tbl'] exI [of _ "rs @ [(ReadAddress aMessage offset0, r)]"]) simp
  then show ?case
    using kn k(2) off mlrOffset_Suc [of k] by simp
qed

lemma mlrLoopState_frame0:
  assumes n: "unat addressesLength = sizeof_Ip6_Address * n"
  shows "mlrLoopState e aMessage addressesLength 0 x (mlrFrame0 e m tbl0 []) k = Some (offset, f) \<Longrightarrow>
         k \<le> n \<and> offset = mlrOffset k \<and> (\<exists>tbl as. f = mlrFrame0 e m tbl as)"
proof (induction k arbitrary: offset f)
  case 0
  then show ?case by (auto simp: mlrOffset_0)
next
  case (Suc k)
  from Suc.prems obtain offset0 f0 where
    prev: "mlrLoopState e aMessage addressesLength 0 x (mlrFrame0 e m tbl0 []) k = Some (offset0, f0)"
    and lt: "offset0 < addressesLength"
    and body: "mlrBody e aMessage 0 x offset0 f0 = Inr f"
    and off: "offset = offset0 + of_nat sizeof_Ip6_Address"
    by (auto split: option.splits if_splits sum.splits)
  from Suc.IH [OF prev] obtain tbl as where
    k: "k \<le> n" "offset0 = mlrOffset k" "f0 = mlrFrame0 e m tbl as"
    by blast
  have kn: "k < n" using lt k(1,2) mlrOffset_less [OF n k(1)] by simp
  have "f = mlrFrame0 e m (ListenersRemove e (ReadAddress aMessage offset0) tbl)
              (as @ [ReadAddress aMessage offset0])"
    using body k(3) by (simp add: mlrBody_def mlrFrame0_def Let_def)
  then have "\<exists>tbl as. f = mlrFrame0 e m tbl as" by blast
  then show ?case
    using kn k(2) off mlrOffset_Suc [of k] by simp
qed

lemma mlrLoopState_loop:
  "mlrLoopState e aMessage addressesLength t x f0 k = Some (offset, f) \<Longrightarrow>
   mlrLoop e aMessage addressesLength t x 0 f0 = mlrLoop e aMessage addressesLength t x offset f"
proof (induction k arbitrary: offset f)
  case 0
  then show ?case by simp
next
  case (Suc k)
  from Suc.prems obtain offset0 f1 where
    prev: "mlrLoopState e aMessage addressesLength t x f0 k = Some (offset0, f1)"
    and lt: "offset0 < addressesLength"
    and body: "mlrBody e aMessage t x offset0 f1 = Inr f"
    and off: "offset = offset0 + of_nat sizeof_Ip6_Address"
    by (auto split: option.splits if_splits sum.splits)
  have "mlrLoop e aMessage addressesLength t x offset0 f1 =
        mlrLoop e aMessage addressesLength t x offset f"
    using lt body off by (subst mlrLoop.simps) simp
  then show ?case using Suc.IH [OF prev] by simp
qed

lemma mlrFrame_invariant:
  assumes max: "kIPv6AddressesNumMax e \<le> 255" and len: "length rs \<le> kIPv6AddressesNumMax e"
    and f: "f = mlrFrame e m t x tbl rs"
  shows "unat (failedAddressNum f) + unat (successAddressNum f) \<le> kIPv6AddressesNumMax e"
    and "length (addresses f) = kIPv6AddressesNumMax e"
    and "take (unat (failedAddressNum f)) (addresses f) = map Some (failedOf (addCalls (calls f)))"
    and "drop (kIPv6AddressesNumMax e - unat (successAddressNum f)) (addresses f) =
           map Some (rev (succOf (addCalls (calls f))))"
proof -
  let ?n = "kIPv6AddressesNumMax e"
  let ?fl = "failedOf rs" and ?sl = "succOf rs"
  have sum: "length ?fl + length ?sl = length rs" by (rule length_failedOf_succOf)
  have fl: "length ?fl \<le> 255" and sl: "length ?sl \<le> 255"
    using sum len max by simp_all
  have cnt: "unat (failedAddressNum f) = length ?fl" "unat (successAddressNum f) = length ?sl"
    by (simp_all add: f mlrFrame_def unat_count [OF fl] unat_count [OF sl])
  have cl: "addCalls (calls f) = rs"
    by (simp add: f mlrFrame_def observe_add_calls)
  have arr: "addresses f = map Some ?fl @ replicate (?n - length rs) None @ map Some (rev ?sl)"
    by (simp add: f mlrFrame_def)
  show "unat (failedAddressNum f) + unat (successAddressNum f) \<le> ?n"
    using cnt sum len by simp
  show "length (addresses f) = ?n"
    using arr sum len by simp
  show "take (unat (failedAddressNum f)) (addresses f) = map Some (failedOf (addCalls (calls f)))"
    by (simp add: cnt cl arr)
  have "?n - length ?sl = length (map Some ?fl @ replicate (?n - length rs) None)"
    using sum len by simp
  then have "drop (?n - length ?sl) ((map Some ?fl @ replicate (?n - length rs) None)
               @ map Some (rev ?sl)) = map Some (rev ?sl)"
    by (simp only: drop_append) simp
  then show "drop (?n - unat (successAddressNum f)) (addresses f) =
          map Some (rev (succOf (addCalls (calls f))))"
    by (simp add: cnt cl arr)
qed

lemma mlrFrame0_invariant:
  assumes f: "f = mlrFrame0 e m tbl as"
  shows "unat (failedAddressNum f) + unat (successAddressNum f) \<le> kIPv6AddressesNumMax e"
    and "length (addresses f) = kIPv6AddressesNumMax e"
    and "take (unat (failedAddressNum f)) (addresses f) = map Some (failedOf (addCalls (calls f)))"
    and "drop (kIPv6AddressesNumMax e - unat (successAddressNum f)) (addresses f) =
           map Some (rev (succOf (addCalls (calls f))))"
  by (simp_all add: f mlrFrame0_def observe_remove_calls failedOf_def succOf_def)

lemma Handle_no_fault:
  assumes min: "kIPv6AddressesNumMin e \<le> 1" and max: "kIPv6AddressesNumMax e \<le> 255"
  shows "HandleMulticastListenerRegistration e m aMessage \<noteq> None"
    and "HandleMulticastListenerRegistration e m aMessage \<noteq> Some (Inl ArrayIndexOutOfBounds)"
    and "HandleMulticastListenerRegistration e m aMessage \<noteq> Some (Inl AssertAddressNumRange)"
  using min max
  by (cases rule: Handle_cases [where e = e and m = m and aMessage = aMessage]; simp)+

lemma Handle_notification_size:
  assumes min: "kIPv6AddressesNumMin e \<le> 1" and max: "kIPv6AddressesNumMax e \<le> 255"
    and run: "HandleMulticastListenerRegistration e m aMessage = Some (Inr (acts, m'))"
    and n: "n \<in> set (notifications acts)"
  shows "kIPv6AddressesNumMin e \<le> length (fst n) \<and> length (fst n) \<le> kIPv6AddressesNumMax e"
  using min max
proof (cases rule: Handle_cases [where e = e and m = m and aMessage = aMessage])
  case NoResponse
  then show ?thesis using run n by simp
next
  case (Reject st)
  then show ?thesis using run n by simp
next
  case (Remove addressesLength)
  then show ?thesis using run n by (simp add: observe_append observe_remove_calls)
next
  case (Add addressesLength t rs)
  have "length rs \<le> kIPv6AddressesNumMax e"
    using mlrValidate_Process(2) [OF Add(1)]
    by (simp add: Add(3) length_addResults mlrRequestAddresses_def mlrOffsets_def)
  moreover have "length (succOf rs) \<le> length rs"
    using length_failedOf_succOf [of rs] by simp
  ultimately have le: "length (succOf rs) \<le> kIPv6AddressesNumMax e" by simp
  have acts: "notifications acts =
          (if succOf rs = [] then [] else [(map Some (rev (succOf rs)), Some t)])"
    using Add(5) run by (simp add: observe_append observe_add_calls)
  then have ne: "succOf rs \<noteq> []" and fn: "fst n = map Some (rev (succOf rs))"
    using n by (simp_all split: if_splits)
  from ne have "1 \<le> length (succOf rs)" by (cases "succOf rs") simp_all
  then show ?thesis using le min fn by simp
next
  case (Unexpected addressesLength t)
  then show ?thesis using run by simp
qed

lemma mlrLoopState_invariant:
  assumes max: "kIPv6AddressesNumMax e \<le> 255"
    and len: "unat addressesLength mod sizeof_Ip6_Address = 0"
    and cnt: "unat addressesLength div sizeof_Ip6_Address \<le> kIPv6AddressesNumMax e"
    and st: "mlrLoopState e aMessage addressesLength t x (mlrEntry e m\<lparr>timeout := Some t\<rparr>) k =
               Some (offset, f)"
  shows "unat (failedAddressNum f) + unat (successAddressNum f) \<le> kIPv6AddressesNumMax e \<and>
         length (addresses f) = kIPv6AddressesNumMax e \<and>
         take (unat (failedAddressNum f)) (addresses f) =
           map Some (failedOf (addCalls (calls f))) \<and>
         drop (kIPv6AddressesNumMax e - unat (successAddressNum f)) (addresses f) =
           map Some (rev (succOf (addCalls (calls f))))"
proof -
  let ?n = "unat addressesLength div sizeof_Ip6_Address"
  have n: "unat addressesLength = sizeof_Ip6_Address * ?n"
    using len by (simp add: sizeof_Ip6_Address_def) presburger
  show ?thesis
  proof (cases "t = 0")
    case True
    have "mlrLoopState e aMessage addressesLength 0 x
            (mlrFrame0 e m (mMulticastListenersTable m) []) k = Some (offset, f)"
      using st True by (simp add: mlrEntry_frame0)
    from mlrLoopState_frame0 [OF n this]
    obtain tbl as where "f = mlrFrame0 e m tbl as" by blast
    from mlrFrame0_invariant [OF this] show ?thesis by simp
  next
    case False
    have "mlrLoopState e aMessage addressesLength t x
            (mlrFrame e m t x (mMulticastListenersTable m) []) k = Some (offset, f)"
      using st by (simp add: mlrEntry_frame [where x = x])
    from mlrLoopState_frame [OF False max n cnt this]
    obtain tbl rs where k: "k \<le> ?n" "length rs = k" and f: "f = mlrFrame e m t x tbl rs" by blast
    have "length rs \<le> kIPv6AddressesNumMax e" using k cnt by simp
    from mlrFrame_invariant [OF max this f] show ?thesis by simp
  qed
qed

lemma clampTimeout_max_min: "lo \<le> hi \<Longrightarrow> max (min t hi) lo = clampTimeout lo hi (t :: 32 word)"
  by (auto simp: clampTimeout_def max_def min_def)

lemma exampleEnv_contract: "ListenersAddContract exampleEnv"
  by (simp add: ListenersAddContract_def exampleEnv_def specListenersAdd_def expectedAddError_def)

section \<open>Multicast Listener Registration: the properties\<close>

text \<open>
  C1, as the code has it. With \<^verbatim>\<open>kIPv6AddressesNumMin\<close> at most 1,
  \<^verbatim>\<open>kIPv6AddressesNumMax\<close> at most 255 (the counters are \<^verbatim>\<open>uint8_t\<close>) and a table whose
  \<open>Add\<close> returns only the three errors that the handler expects, every MLR request is
  handled to the end, and a backbone notification that is sent carries the addresses
  registered by the request in the reverse of the order of the \<open>Add\<close> calls: the loop
  stores each registered address in front of the one before it, at the back of
  \<^verbatim>\<open>addresses\<close>. For a request that reaches the loop with a timeout other than zero the
  \<open>Add\<close> calls are made for the addresses of the request in the order of its
  address-list TLV, so the notification lists the registered addresses in the reverse of
  their order in the request.
\<close>

theorem mlr_notification_reverse_order:
  assumes min: "kIPv6AddressesNumMin e \<le> 1" and max: "kIPv6AddressesNumMax e \<le> 255"
    and contract: "ListenersAddContract e"
  shows "\<exists>acts m'.
           HandleMulticastListenerRegistration e m aMessage = Some (Inr (acts, m')) \<and>
           (\<forall>n \<in> set (notifications acts). fst n = map Some (rev (succOf (addCalls acts)))) \<and>
           (\<forall>addressesLength t.
              mlrValidate e m aMessage = MlrProcess addressesLength t \<and> t \<noteq> 0 \<longrightarrow>
              map fst (addCalls acts) = mlrRequestAddresses aMessage addressesLength)"
  using min max
proof (cases rule: Handle_cases [where e = e and m = m and aMessage = aMessage])
  case NoResponse
  then show ?thesis by simp
next
  case (Reject st)
  then show ?thesis by simp
next
  case (Remove addressesLength)
  then show ?thesis
    by (simp add: observe_append observe_remove_calls)
next
  case (Add addressesLength t rs)
  then show ?thesis
    by (simp add: observe_append observe_add_calls map_fst_addResults)
next
  case (Unexpected addressesLength t)
  then show ?thesis using contract_allExpected [OF contract] by simp
qed

theorem mlr_notification_reverse_order_witness:
  "kIPv6AddressesNumMin exampleEnv \<le> 1 \<and> kIPv6AddressesNumMax exampleEnv \<le> 255 \<and>
   ListenersAddContract exampleEnv \<and>
   (\<exists>acts m'.
      HandleMulticastListenerRegistration exampleEnv exampleManager exampleMixedRequest =
        Some (Inr (acts, m')) \<and>
      (\<forall>n \<in> set (notifications acts). fst n = map Some (rev (succOf (addCalls acts)))) \<and>
      (\<forall>addressesLength t.
         mlrValidate exampleEnv exampleManager exampleMixedRequest = MlrProcess addressesLength t \<and>
         t \<noteq> 0 \<longrightarrow>
         map fst (addCalls acts) = mlrRequestAddresses exampleMixedRequest addressesLength)) \<and>
   mlrValidate exampleEnv exampleManager exampleMixedRequest = MlrProcess 64 3600 \<and>
   mlrRequestAddresses exampleMixedRequest 64 =
     [0xff040000000000000000000000000001, 0xff020000000000000000000000000001,
      0xff040000000000000000000000000002, 0xff040000000000000000000000000003]"
proof -
  have h: "kIPv6AddressesNumMin exampleEnv \<le> 1" "kIPv6AddressesNumMax exampleEnv \<le> 255"
    by code_simp+
  have path: "mlrValidate exampleEnv exampleManager exampleMixedRequest = MlrProcess 64 3600"
    "mlrRequestAddresses exampleMixedRequest 64 =
     [0xff040000000000000000000000000001, 0xff020000000000000000000000000001,
      0xff040000000000000000000000000002, 0xff040000000000000000000000000003]"
    by code_simp+
  show ?thesis
    using h exampleEnv_contract path
      mlr_notification_reverse_order [OF h exampleEnv_contract,
        where m = exampleManager and aMessage = exampleMixedRequest]
    by (simp only: simp_thms)
qed

theorem mlr_notification_order_counterexample:
  "HandleMulticastListenerRegistration exampleEnv exampleManager exampleMlrRequest =
     Some (Inr ([ListenersAddCall 0xff040000000000000000000000000001 3605000 OT_ERROR_NONE,
                 ListenersAddCall 0xff040000000000000000000000000002 3605000 OT_ERROR_NONE,
                 MlrResponse kMlrSuccess None,
                 BackboneMlrNotification [Some 0xff040000000000000000000000000002,
                                          Some 0xff040000000000000000000000000001] (Some 3600)],
                exampleRegisteredManager)) \<and>
   mlrRequestAddresses exampleMlrRequest 32 =
     [0xff040000000000000000000000000001, 0xff040000000000000000000000000002] \<and>
   [Some 0xff040000000000000000000000000002, Some 0xff040000000000000000000000000001] \<noteq>
     map Some (mlrRequestAddresses exampleMlrRequest 32)"
  by code_simp

text \<open>
  C2, as the code has it. Take a confirmable POST handled by the primary router, with no
  response status configured for the next request and no commissioner session TLV that
  differs from the one in the network data. When the address-list TLV is absent the
  request is dropped: no response is sent, nothing else is called and the manager is
  unchanged. When the TLV is present and its length is not a multiple of the size of an
  address, or it holds more than \<^verbatim>\<open>kIPv6AddressesNumMax\<close> addresses, a response with status
  \<^verbatim>\<open>kMlrGeneralFailure\<close> and no address list is sent, no table is called and the manager
  is unchanged.
\<close>

theorem mlr_malformed_address_list:
  assumes post: "IsConfirmablePostRequest aMessage"
    and hook: "\<not> mlrResponseConfigured e m"
    and primary: "IsPrimary e"
    and session: "FindCommissionerSessionIdTlv aMessage = None \<or>
                  FindCommissionerSessionIdTlv aMessage = GetCommissionerSessionId e"
  shows "(FindIPv6AddressesTlv aMessage = None \<longrightarrow>
            HandleMulticastListenerRegistration e m aMessage = Some (Inr ([], m))) \<and>
         (\<forall>addressesLength.
            FindIPv6AddressesTlv aMessage = Some addressesLength \<and>
            (unat addressesLength mod sizeof_Ip6_Address \<noteq> 0 \<or>
             kIPv6AddressesNumMax e < unat addressesLength div sizeof_Ip6_Address) \<longrightarrow>
            HandleMulticastListenerRegistration e m aMessage =
              Some (Inr ([MlrResponse kMlrGeneralFailure None], m)))"
  using assms by (auto simp: Handle_unfold mlrValidate_def)

theorem mlr_malformed_address_list_witness:
  "IsConfirmablePostRequest exampleOddLengthRequest \<and>
   \<not> mlrResponseConfigured exampleEnv exampleManager \<and>
   IsPrimary exampleEnv \<and>
   (FindCommissionerSessionIdTlv exampleOddLengthRequest = None \<or>
    FindCommissionerSessionIdTlv exampleOddLengthRequest = GetCommissionerSessionId exampleEnv) \<and>
   FindIPv6AddressesTlv exampleOddLengthRequest = Some 17 \<and>
   unat (17 :: 16 word) mod sizeof_Ip6_Address \<noteq> 0 \<and>
   HandleMulticastListenerRegistration exampleEnv exampleManager exampleOddLengthRequest =
     Some (Inr ([MlrResponse kMlrGeneralFailure None], exampleManager)) \<and>
   IsConfirmablePostRequest exampleNoAddressesRequest \<and>
   (FindCommissionerSessionIdTlv exampleNoAddressesRequest = None \<or>
    FindCommissionerSessionIdTlv exampleNoAddressesRequest = GetCommissionerSessionId exampleEnv) \<and>
   FindIPv6AddressesTlv exampleNoAddressesRequest = None \<and>
   HandleMulticastListenerRegistration exampleEnv exampleManager exampleNoAddressesRequest =
     Some (Inr ([], exampleManager))"
proof -
  have h: "IsConfirmablePostRequest exampleOddLengthRequest"
    "\<not> mlrResponseConfigured exampleEnv exampleManager"
    "IsPrimary exampleEnv"
    "FindCommissionerSessionIdTlv exampleOddLengthRequest = None \<or>
     FindCommissionerSessionIdTlv exampleOddLengthRequest = GetCommissionerSessionId exampleEnv"
    by code_simp+
  have odd: "FindIPv6AddressesTlv exampleOddLengthRequest = Some 17"
    "unat (17 :: 16 word) mod sizeof_Ip6_Address \<noteq> 0"
    by code_simp+
  have g: "IsConfirmablePostRequest exampleNoAddressesRequest"
    "FindCommissionerSessionIdTlv exampleNoAddressesRequest = None \<or>
     FindCommissionerSessionIdTlv exampleNoAddressesRequest = GetCommissionerSessionId exampleEnv"
    by code_simp+
  have none: "FindIPv6AddressesTlv exampleNoAddressesRequest = None"
    by code_simp
  note bad = mlr_malformed_address_list [OF h, THEN conjunct2, rule_format, of 17]
  note absent = mlr_malformed_address_list [OF g(1) h(2,3) g(2), THEN conjunct1, rule_format]
  show ?thesis
    using h odd g none bad [OF conjI [OF odd(1) disjI1 [OF odd(2)]]] absent [OF none]
    by (simp only: simp_thms)
qed

theorem mlr_malformed_address_list_counterexample:
  "FindIPv6AddressesTlv exampleOddLengthRequest = Some 17 \<and>
   HandleMulticastListenerRegistration exampleEnv exampleManager exampleOddLengthRequest =
     Some (Inr ([MlrResponse kMlrGeneralFailure None], exampleManager))"
  by code_simp

text \<open>
  C3. For every MLR request that reaches the loop over its addresses with a timeout other
  than zero, with \<^verbatim>\<open>kIPv6AddressesNumMin\<close> at most 1, \<^verbatim>\<open>kIPv6AddressesNumMax\<close> at most 255 and
  a table whose \<open>Add\<close> returns only the three errors that the handler expects: \<open>Add\<close>
  is called for the addresses of the request in the order of the TLV, exactly one
  response is sent, and its status is the class of the first result that is not
  \<^verbatim>\<open>OT_ERROR_NONE\<close>: \<^verbatim>\<open>kMlrInvalid\<close> for \<^verbatim>\<open>OT_ERROR_INVALID_ARGS\<close>, \<^verbatim>\<open>kMlrNoResources\<close> for
  \<^verbatim>\<open>OT_ERROR_NO_BUFS\<close>, and \<^verbatim>\<open>kMlrSuccess\<close> when every \<open>Add\<close> succeeds. No later result,
  success or failure, changes a status set by an earlier failure.
\<close>

theorem mlr_status_is_first_failure:
  assumes min: "kIPv6AddressesNumMin e \<le> 1" and max: "kIPv6AddressesNumMax e \<le> 255"
    and contract: "ListenersAddContract e"
    and path: "mlrValidate e m aMessage = MlrProcess addressesLength t"
    and t: "t \<noteq> 0"
  shows "\<exists>acts m' st failed.
           HandleMulticastListenerRegistration e m aMessage = Some (Inr (acts, m')) \<and>
           map fst (addCalls acts) = mlrRequestAddresses aMessage addressesLength \<and>
           mlrResponses acts = [(st, failed)] \<and>
           Some st = mlrStatusOfError (firstNonSuccess (map snd (addCalls acts)))"
proof -
  define rs where "rs = addResults e (GetNow e + SecToMsec e t)
                          (mlrRequestAddresses aMessage addressesLength) (mMulticastListenersTable m)"
  have ex: "allExpected rs"
    unfolding rs_def using contract by (rule contract_allExpected)
  then have st: "Some (foldl stickyStatus kMlrSuccess (map snd rs)) =
                 mlrStatusOfError (firstNonSuccess (map snd rs))"
    by (intro stickyStatus_first) (simp add: allExpected_def list_all_iff)
  have "HandleMulticastListenerRegistration e m aMessage =
          mlrRegister e aMessage addressesLength t (mlrEntry e m)"
    by (simp add: Handle_unfold path)
  also note mlrRegister_add [OF t min max mlrValidate_Process(1,2) [OF path] rs_def]
  finally show ?thesis
    using ex st
    by (simp add: observe_append observe_add_calls rs_def [symmetric])
       (simp add: rs_def map_fst_addResults)
qed

theorem mlr_status_is_first_failure_witness:
  "kIPv6AddressesNumMin exampleEnv \<le> 1 \<and> kIPv6AddressesNumMax exampleEnv \<le> 255 \<and>
   ListenersAddContract exampleEnv \<and>
   mlrValidate exampleEnv exampleManager exampleMixedRequest = MlrProcess 64 3600 \<and>
   (3600 :: 32 word) \<noteq> 0 \<and>
   (\<exists>acts m' st failed.
      HandleMulticastListenerRegistration exampleEnv exampleManager exampleMixedRequest =
        Some (Inr (acts, m')) \<and>
      map fst (addCalls acts) = mlrRequestAddresses exampleMixedRequest 64 \<and>
      mlrResponses acts = [(st, failed)] \<and>
      Some st = mlrStatusOfError (firstNonSuccess (map snd (addCalls acts)))) \<and>
   HandleMulticastListenerRegistration exampleEnv exampleManager exampleMixedRequest =
     Some (Inr ([ListenersAddCall 0xff040000000000000000000000000001 3605000 OT_ERROR_NONE,
                 ListenersAddCall 0xff020000000000000000000000000001 3605000 OT_ERROR_INVALID_ARGS,
                 ListenersAddCall 0xff040000000000000000000000000002 3605000 OT_ERROR_NONE,
                 ListenersAddCall 0xff040000000000000000000000000003 3605000 OT_ERROR_NO_BUFS,
                 MlrResponse kMlrInvalid
                   (Some [Some 0xff020000000000000000000000000001,
                          Some 0xff040000000000000000000000000003]),
                 BackboneMlrNotification [Some 0xff040000000000000000000000000002,
                                          Some 0xff040000000000000000000000000001] (Some 3600)],
                exampleRegisteredManager))"
proof -
  have h: "kIPv6AddressesNumMin exampleEnv \<le> 1" "kIPv6AddressesNumMax exampleEnv \<le> 255"
    "mlrValidate exampleEnv exampleManager exampleMixedRequest = MlrProcess 64 3600"
    "(3600 :: 32 word) \<noteq> 0"
    by code_simp+
  have run: "HandleMulticastListenerRegistration exampleEnv exampleManager exampleMixedRequest =
     Some (Inr ([ListenersAddCall 0xff040000000000000000000000000001 3605000 OT_ERROR_NONE,
                 ListenersAddCall 0xff020000000000000000000000000001 3605000 OT_ERROR_INVALID_ARGS,
                 ListenersAddCall 0xff040000000000000000000000000002 3605000 OT_ERROR_NONE,
                 ListenersAddCall 0xff040000000000000000000000000003 3605000 OT_ERROR_NO_BUFS,
                 MlrResponse kMlrInvalid
                   (Some [Some 0xff020000000000000000000000000001,
                          Some 0xff040000000000000000000000000003]),
                 BackboneMlrNotification [Some 0xff040000000000000000000000000002,
                                          Some 0xff040000000000000000000000000001] (Some 3600)],
                exampleRegisteredManager))"
    by code_simp
  show ?thesis
    using h exampleEnv_contract run
      mlr_status_is_first_failure [OF h(1,2) exampleEnv_contract h(3,4)]
    by (simp only: simp_thms)
qed

text \<open>
  C4, as the code has it. Take a confirmable POST handled by the primary router, with no
  response status configured for the next request, a commissioner session TLV equal to
  the one in the network data, a timeout TLV of value \<open>t\<close> and an address-list TLV that
  passes the two checks of its length; let \<^verbatim>\<open>kMlrTimeoutMin\<close> be at most
  \<^verbatim>\<open>kMlrTimeoutMax\<close>, and the address-count constants and \<open>Add\<close> be as in C3. When \<open>t\<close>
  is \<^verbatim>\<open>UINT32_MAX\<close> the only call is a response with status \<^verbatim>\<open>kMlrNoPersistent\<close>, and the
  manager, with the multicast listeners table, is unchanged. When \<open>0 < t < UINT32_MAX\<close>
  every \<open>Add\<close> gets the expiry time \<open>now + SecToMsec (clamp t)\<close> and a notification
  carries the timeout \<open>clamp t\<close>, where \<open>clamp\<close> puts \<open>t\<close> into
  \<open>[kMlrTimeoutMin, kMlrTimeoutMax]\<close>; the status of the response is the class of the
  first failed \<open>Add\<close>, success when none fails, whether or not \<open>t\<close> was clamped.
\<close>

theorem mlr_timeout_tlv:
  assumes min: "kIPv6AddressesNumMin e \<le> 1" and max: "kIPv6AddressesNumMax e \<le> 255"
    and contract: "ListenersAddContract e"
    and range: "kMlrTimeoutMin e \<le> kMlrTimeoutMax e"
    and post: "IsConfirmablePostRequest aMessage"
    and hook: "\<not> mlrResponseConfigured e m"
    and primary: "IsPrimary e"
    and sid: "FindCommissionerSessionIdTlv aMessage = Some sid" "GetCommissionerSessionId e = Some sid"
    and tlv: "FindTimeoutTlv aMessage = Some t"
    and list: "FindIPv6AddressesTlv aMessage = Some addressesLength"
      "unat addressesLength mod sizeof_Ip6_Address = 0"
      "unat addressesLength div sizeof_Ip6_Address \<le> kIPv6AddressesNumMax e"
  shows "(t = UINT32_MAX \<longrightarrow>
            HandleMulticastListenerRegistration e m aMessage =
              Some (Inr ([MlrResponse kMlrNoPersistent None], m))) \<and>
         (0 < t \<and> t < UINT32_MAX \<longrightarrow>
            (\<exists>acts m' st failed.
               HandleMulticastListenerRegistration e m aMessage = Some (Inr (acts, m')) \<and>
               set (addExpiries acts) \<subseteq>
                 {GetNow e + SecToMsec e (clampTimeout (kMlrTimeoutMin e) (kMlrTimeoutMax e) t)} \<and>
               (\<forall>n \<in> set (notifications acts).
                  snd n = Some (clampTimeout (kMlrTimeoutMin e) (kMlrTimeoutMax e) t)) \<and>
               mlrResponses acts = [(st, failed)] \<and>
               Some st = mlrStatusOfError (firstNonSuccess (map snd (addCalls acts)))))"
proof (intro conjI impI)
  let ?c = "clampTimeout (kMlrTimeoutMin e) (kMlrTimeoutMax e) t"
  have path: "mlrValidate e m aMessage =
                (if t = UINT32_MAX then MlrReject kMlrNoPersistent
                 else if t = 0 then MlrProcess addressesLength 0
                 else MlrProcess addressesLength ?c)"
    using post hook primary sid tlv list
    by (simp add: mlrValidate_def clampTimeout_max_min [OF range] not_less)
  {
    assume "t = UINT32_MAX"
    then show "HandleMulticastListenerRegistration e m aMessage =
                 Some (Inr ([MlrResponse kMlrNoPersistent None], m))"
      using path hook by (simp add: Handle_unfold)
  }
  assume "0 < t \<and> t < UINT32_MAX"
  then have t: "t \<noteq> 0" "t \<noteq> UINT32_MAX" by auto
  then have proc: "mlrValidate e m aMessage = MlrProcess addressesLength ?c"
    using path by simp
  from min max
  show "\<exists>acts m' st failed.
          HandleMulticastListenerRegistration e m aMessage = Some (Inr (acts, m')) \<and>
          set (addExpiries acts) \<subseteq> {GetNow e + SecToMsec e ?c} \<and>
          (\<forall>n \<in> set (notifications acts). snd n = Some ?c) \<and>
          mlrResponses acts = [(st, failed)] \<and>
          Some st = mlrStatusOfError (firstNonSuccess (map snd (addCalls acts)))"
  proof (cases rule: Handle_cases [where e = e and m = m and aMessage = aMessage])
    case NoResponse
    then show ?thesis using proc by simp
  next
    case (Reject st)
    then show ?thesis using proc by simp
  next
    case (Remove len)
    then show ?thesis
      by (simp add: observe_append observe_remove_calls firstNonSuccess_def mlrStatusOfError_def)
  next
    case (Add len t' rs)
    then have t': "t' = ?c" using proc by simp
    have "allExpected rs" by (rule Add(4))
    then have "Some (foldl stickyStatus kMlrSuccess (map snd rs)) =
               mlrStatusOfError (firstNonSuccess (map snd rs))"
      by (intro stickyStatus_first) (simp add: allExpected_def list_all_iff)
    then show ?thesis
      using Add(5) t' by (simp add: observe_append observe_add_calls set_replicate_conv_if)
  next
    case (Unexpected len t')
    then show ?thesis using contract_allExpected [OF contract] by simp
  qed
qed

theorem mlr_timeout_tlv_witness:
  "kIPv6AddressesNumMin exampleEnv \<le> 1 \<and> kIPv6AddressesNumMax exampleEnv \<le> 255 \<and>
   ListenersAddContract exampleEnv \<and>
   kMlrTimeoutMin exampleEnv \<le> kMlrTimeoutMax exampleEnv \<and>
   IsConfirmablePostRequest exampleShortTimeoutRequest \<and>
   \<not> mlrResponseConfigured exampleEnv exampleManager \<and>
   IsPrimary exampleEnv \<and>
   FindCommissionerSessionIdTlv exampleShortTimeoutRequest = Some 7 \<and>
   GetCommissionerSessionId exampleEnv = Some 7 \<and>
   FindTimeoutTlv exampleShortTimeoutRequest = Some 100 \<and>
   FindIPv6AddressesTlv exampleShortTimeoutRequest = Some 32 \<and>
   unat (32 :: 16 word) mod sizeof_Ip6_Address = 0 \<and>
   unat (32 :: 16 word) div sizeof_Ip6_Address \<le> kIPv6AddressesNumMax exampleEnv \<and>
   (0 :: 32 word) < 100 \<and> (100 :: 32 word) < UINT32_MAX \<and>
   clampTimeout (kMlrTimeoutMin exampleEnv) (kMlrTimeoutMax exampleEnv) 100 = 300 \<and>
   (\<exists>acts m' st failed.
      HandleMulticastListenerRegistration exampleEnv exampleManager exampleShortTimeoutRequest =
        Some (Inr (acts, m')) \<and>
      set (addExpiries acts) \<subseteq> {GetNow exampleEnv + SecToMsec exampleEnv 300} \<and>
      (\<forall>n \<in> set (notifications acts). snd n = Some 300) \<and>
      mlrResponses acts = [(st, failed)] \<and>
      Some st = mlrStatusOfError (firstNonSuccess (map snd (addCalls acts)))) \<and>
   HandleMulticastListenerRegistration exampleEnv exampleManager exampleShortTimeoutRequest =
     Some (Inr ([ListenersAddCall 0xff040000000000000000000000000001 305000 OT_ERROR_NONE,
                 ListenersAddCall 0xff040000000000000000000000000002 305000 OT_ERROR_NONE,
                 MlrResponse kMlrSuccess None,
                 BackboneMlrNotification [Some 0xff040000000000000000000000000002,
                                          Some 0xff040000000000000000000000000001] (Some 300)],
                exampleManager\<lparr>mMulticastListenersTable :=
                                 [(0xff040000000000000000000000000001, 305000),
                                  (0xff040000000000000000000000000002, 305000)]\<rparr>)) \<and>
   IsConfirmablePostRequest exampleNoPersistentRequest \<and>
   FindCommissionerSessionIdTlv exampleNoPersistentRequest = Some 7 \<and>
   FindTimeoutTlv exampleNoPersistentRequest = Some UINT32_MAX \<and>
   FindIPv6AddressesTlv exampleNoPersistentRequest = Some 32 \<and>
   HandleMulticastListenerRegistration exampleEnv exampleBusyManager exampleNoPersistentRequest =
     Some (Inr ([MlrResponse kMlrNoPersistent None], exampleBusyManager))"
proof -
  have h: "kIPv6AddressesNumMin exampleEnv \<le> 1" "kIPv6AddressesNumMax exampleEnv \<le> 255"
    "kMlrTimeoutMin exampleEnv \<le> kMlrTimeoutMax exampleEnv"
    "IsConfirmablePostRequest exampleShortTimeoutRequest"
    "\<not> mlrResponseConfigured exampleEnv exampleManager"
    "IsPrimary exampleEnv"
    "FindCommissionerSessionIdTlv exampleShortTimeoutRequest = Some 7"
    "GetCommissionerSessionId exampleEnv = Some 7"
    "FindTimeoutTlv exampleShortTimeoutRequest = Some 100"
    "FindIPv6AddressesTlv exampleShortTimeoutRequest = Some 32"
    "unat (32 :: 16 word) mod sizeof_Ip6_Address = 0"
    "unat (32 :: 16 word) div sizeof_Ip6_Address \<le> kIPv6AddressesNumMax exampleEnv"
    by code_simp+
  have t: "(0 :: 32 word) < 100" "(100 :: 32 word) < UINT32_MAX"
    "clampTimeout (kMlrTimeoutMin exampleEnv) (kMlrTimeoutMax exampleEnv) 100 = 300"
    by code_simp+
  have run: "HandleMulticastListenerRegistration exampleEnv exampleManager exampleShortTimeoutRequest =
     Some (Inr ([ListenersAddCall 0xff040000000000000000000000000001 305000 OT_ERROR_NONE,
                 ListenersAddCall 0xff040000000000000000000000000002 305000 OT_ERROR_NONE,
                 MlrResponse kMlrSuccess None,
                 BackboneMlrNotification [Some 0xff040000000000000000000000000002,
                                          Some 0xff040000000000000000000000000001] (Some 300)],
                exampleManager\<lparr>mMulticastListenersTable :=
                                 [(0xff040000000000000000000000000001, 305000),
                                  (0xff040000000000000000000000000002, 305000)]\<rparr>))"
    by code_simp
  have g: "IsConfirmablePostRequest exampleNoPersistentRequest"
    "\<not> mlrResponseConfigured exampleEnv exampleBusyManager"
    "FindCommissionerSessionIdTlv exampleNoPersistentRequest = Some 7"
    "FindTimeoutTlv exampleNoPersistentRequest = Some UINT32_MAX"
    "FindIPv6AddressesTlv exampleNoPersistentRequest = Some 32"
    by code_simp+
  note inst = mlr_timeout_tlv [OF h(1,2) exampleEnv_contract h(3-12), THEN conjunct2, rule_format]
  note sentinel = mlr_timeout_tlv [OF h(1,2) exampleEnv_contract h(3) g(1,2) h(6) g(3) h(8) g(4,5)
                    h(11,12), THEN conjunct1, rule_format]
  show ?thesis
    using h exampleEnv_contract t run inst [OF conjI [OF t(1,2)]] g sentinel [OF refl]
    by (simp only: t(3) simp_thms)
qed

theorem mlr_timeout_tlv_counterexample:
  "IsPrimary exampleEnv \<and>
   FindCommissionerSessionIdTlv exampleNoPersistentOddRequest = GetCommissionerSessionId exampleEnv \<and>
   FindTimeoutTlv exampleNoPersistentOddRequest = Some UINT32_MAX \<and>
   HandleMulticastListenerRegistration exampleEnv exampleManager exampleNoPersistentOddRequest =
     Some (Inr ([MlrResponse kMlrGeneralFailure None], exampleManager))"
  by code_simp

text \<open>
  C5, as the code has it. While this router is not the primary Backbone Router: a
  confirmable MLR request is answered with status \<^verbatim>\<open>kMlrBbrNotPrimary\<close>, unless a response
  status was configured for the next MLR request; a confirmable DUA request from a
  routing-locator source whose target and mesh-local identifier TLVs are found is
  answered with status \<^verbatim>\<open>kDuaNotPrimary\<close> and the target, unless a response was
  configured for the next DUA request of that mesh-local identifier. In both cases the
  response is the only call and the manager, with both tables, is unchanged.
\<close>

theorem mlr_not_primary_dua_not_primary:
  assumes "\<not> IsPrimary e"
  shows "(IsConfirmablePostRequest mlrMessage \<and> \<not> mlrResponseConfigured e m \<longrightarrow>
            HandleMulticastListenerRegistration e m mlrMessage =
              Some (Inr ([MlrResponse kMlrBbrNotPrimary None], m))) \<and>
         (IsRoutingLocator e (GetIid e (GetPeerAddr aMessageInfo)) \<and>
          IsConfirmablePostRequest duaMessage \<and>
          fst (FindTargetTlv duaMessage) = OT_ERROR_NONE \<and>
          fst (FindMeshLocalEidTlv duaMessage) = OT_ERROR_NONE \<and>
          \<not> duaResponseConfigured e m duaMessage \<longrightarrow>
            HandleDuaRegistration e m duaMessage aMessageInfo =
              ([DuaResponse (snd (FindTargetTlv duaMessage)) kDuaNotPrimary], m))"
proof (intro conjI impI)
  assume "IsConfirmablePostRequest mlrMessage \<and> \<not> mlrResponseConfigured e m"
  then show "HandleMulticastListenerRegistration e m mlrMessage =
              Some (Inr ([MlrResponse kMlrBbrNotPrimary None], m))"
    using assms by (simp add: Handle_unfold mlrValidate_def)
next
  assume "IsRoutingLocator e (GetIid e (GetPeerAddr aMessageInfo)) \<and>
          IsConfirmablePostRequest duaMessage \<and>
          fst (FindTargetTlv duaMessage) = OT_ERROR_NONE \<and>
          fst (FindMeshLocalEidTlv duaMessage) = OT_ERROR_NONE \<and>
          \<not> duaResponseConfigured e m duaMessage"
  then show "HandleDuaRegistration e m duaMessage aMessageInfo =
              ([DuaResponse (snd (FindTargetTlv duaMessage)) kDuaNotPrimary], m)"
    using assms
    by (auto simp: HandleDuaRegistration_def duaResponseConfigured_def duaExit_def Let_def
          SendDuaRegistrationResponse_def)
qed

theorem mlr_not_primary_dua_not_primary_witness:
  "\<not> IsPrimary exampleSecondaryEnv \<and>
   IsConfirmablePostRequest exampleMlrRequest \<and>
   \<not> mlrResponseConfigured exampleSecondaryEnv exampleBusyManager \<and>
   HandleMulticastListenerRegistration exampleSecondaryEnv exampleBusyManager exampleMlrRequest =
     Some (Inr ([MlrResponse kMlrBbrNotPrimary None], exampleBusyManager)) \<and>
   IsRoutingLocator exampleSecondaryEnv (GetIid exampleSecondaryEnv (GetPeerAddr exampleRlocSender)) \<and>
   IsConfirmablePostRequest exampleDuaRequest \<and>
   fst (FindTargetTlv exampleDuaRequest) = OT_ERROR_NONE \<and>
   fst (FindMeshLocalEidTlv exampleDuaRequest) = OT_ERROR_NONE \<and>
   \<not> duaResponseConfigured exampleSecondaryEnv exampleBusyManager exampleDuaRequest \<and>
   HandleDuaRegistration exampleSecondaryEnv exampleBusyManager exampleDuaRequest exampleRlocSender =
     ([DuaResponse (snd (FindTargetTlv exampleDuaRequest)) kDuaNotPrimary], exampleBusyManager)"
proof -
  have p: "\<not> IsPrimary exampleSecondaryEnv" by code_simp
  have mlr: "IsConfirmablePostRequest exampleMlrRequest"
    "\<not> mlrResponseConfigured exampleSecondaryEnv exampleBusyManager"
    by code_simp+
  have dua: "IsRoutingLocator exampleSecondaryEnv
               (GetIid exampleSecondaryEnv (GetPeerAddr exampleRlocSender))"
    "IsConfirmablePostRequest exampleDuaRequest"
    "fst (FindTargetTlv exampleDuaRequest) = OT_ERROR_NONE"
    "fst (FindMeshLocalEidTlv exampleDuaRequest) = OT_ERROR_NONE"
    "\<not> duaResponseConfigured exampleSecondaryEnv exampleBusyManager exampleDuaRequest"
    by code_simp+
  note a = mlr_not_primary_dua_not_primary [OF p, THEN conjunct1, rule_format,
             where m = exampleBusyManager and mlrMessage = exampleMlrRequest]
  note b = mlr_not_primary_dua_not_primary [OF p, THEN conjunct2, rule_format,
             where m = exampleBusyManager and duaMessage = exampleDuaRequest
               and aMessageInfo = exampleRlocSender]
  have dua_all: "IsRoutingLocator exampleSecondaryEnv
               (GetIid exampleSecondaryEnv (GetPeerAddr exampleRlocSender)) \<and>
    IsConfirmablePostRequest exampleDuaRequest \<and>
    fst (FindTargetTlv exampleDuaRequest) = OT_ERROR_NONE \<and>
    fst (FindMeshLocalEidTlv exampleDuaRequest) = OT_ERROR_NONE \<and>
    \<not> duaResponseConfigured exampleSecondaryEnv exampleBusyManager exampleDuaRequest"
    using dua by (simp only: simp_thms)
  show ?thesis
    using p mlr dua a [OF conjI [OF mlr]] b [OF dua_all]
    by (simp only: simp_thms)
qed

theorem mlr_not_primary_counterexample:
  "\<not> IsPrimary exampleReferenceSecondaryEnv \<and>
   IsConfirmablePostRequest exampleMlrRequest \<and>
   HandleMulticastListenerRegistration exampleReferenceSecondaryEnv exampleConfiguredManager
     exampleMlrRequest =
     Some (Inr ([MlrResponse kMlrSuccess None], exampleManager))"
  by code_simp



text \<open>
  C10. With \<^verbatim>\<open>kIPv6AddressesNumMin\<close> at most 1 and \<^verbatim>\<open>kIPv6AddressesNumMax\<close> at most 255, for
  every request, manager and table: the handler ends, no access to \<^verbatim>\<open>addresses\<close> is out
  of bounds, and the assertion of the backbone send routine holds, so that the list of
  every notification has between \<^verbatim>\<open>kIPv6AddressesNumMin\<close> and \<^verbatim>\<open>kIPv6AddressesNumMax\<close>
  addresses. For an address list that passes the two checks of its length, each time
  the loop condition is evaluated the two counters add up to at most
  \<^verbatim>\<open>kIPv6AddressesNumMax\<close>, the array has that many slots, its first \<^verbatim>\<open>failedAddressNum\<close>
  slots hold the failed addresses and its last \<^verbatim>\<open>successAddressNum\<close> slots the registered
  ones: neither list has overwritten the other.
\<close>

theorem mlr_addresses_array_in_bounds:
  assumes min: "kIPv6AddressesNumMin e \<le> 1" and max: "kIPv6AddressesNumMax e \<le> 255"
  shows "HandleMulticastListenerRegistration e m aMessage \<noteq> None \<and>
         HandleMulticastListenerRegistration e m aMessage \<noteq> Some (Inl ArrayIndexOutOfBounds) \<and>
         HandleMulticastListenerRegistration e m aMessage \<noteq> Some (Inl AssertAddressNumRange) \<and>
         (\<forall>acts m'. HandleMulticastListenerRegistration e m aMessage = Some (Inr (acts, m')) \<longrightarrow>
            (\<forall>n \<in> set (notifications acts).
               kIPv6AddressesNumMin e \<le> length (fst n) \<and> length (fst n) \<le> kIPv6AddressesNumMax e)) \<and>
         (\<forall>addressesLength t x k offset f.
            unat addressesLength mod sizeof_Ip6_Address = 0 \<and>
            unat addressesLength div sizeof_Ip6_Address \<le> kIPv6AddressesNumMax e \<and>
            mlrLoopState e aMessage addressesLength t x (mlrEntry e m\<lparr>timeout := Some t\<rparr>) k =
              Some (offset, f) \<longrightarrow>
            unat (failedAddressNum f) + unat (successAddressNum f) \<le> kIPv6AddressesNumMax e \<and>
            length (addresses f) = kIPv6AddressesNumMax e \<and>
            take (unat (failedAddressNum f)) (addresses f) =
              map Some (failedOf (addCalls (calls f))) \<and>
            drop (kIPv6AddressesNumMax e - unat (successAddressNum f)) (addresses f) =
              map Some (rev (succOf (addCalls (calls f)))))"
proof -
  note run = Handle_no_fault [OF min max, of m aMessage]
  have size: "\<forall>acts m'. HandleMulticastListenerRegistration e m aMessage = Some (Inr (acts, m')) \<longrightarrow>
            (\<forall>n \<in> set (notifications acts).
               kIPv6AddressesNumMin e \<le> length (fst n) \<and> length (fst n) \<le> kIPv6AddressesNumMax e)"
    using Handle_notification_size [OF min max] by blast
  have loop: "\<forall>addressesLength t x k offset f.
            unat addressesLength mod sizeof_Ip6_Address = 0 \<and>
            unat addressesLength div sizeof_Ip6_Address \<le> kIPv6AddressesNumMax e \<and>
            mlrLoopState e aMessage addressesLength t x (mlrEntry e m\<lparr>timeout := Some t\<rparr>) k =
              Some (offset, f) \<longrightarrow>
            unat (failedAddressNum f) + unat (successAddressNum f) \<le> kIPv6AddressesNumMax e \<and>
            length (addresses f) = kIPv6AddressesNumMax e \<and>
            take (unat (failedAddressNum f)) (addresses f) =
              map Some (failedOf (addCalls (calls f))) \<and>
            drop (kIPv6AddressesNumMax e - unat (successAddressNum f)) (addresses f) =
              map Some (rev (succOf (addCalls (calls f))))"
  proof (intro allI impI)
    fix addressesLength t x k offset f
    assume h: "unat addressesLength mod sizeof_Ip6_Address = 0 \<and>
            unat addressesLength div sizeof_Ip6_Address \<le> kIPv6AddressesNumMax e \<and>
            mlrLoopState e aMessage addressesLength t x (mlrEntry e m\<lparr>timeout := Some t\<rparr>) k =
              Some (offset, f)"
    show "unat (failedAddressNum f) + unat (successAddressNum f) \<le> kIPv6AddressesNumMax e \<and>
            length (addresses f) = kIPv6AddressesNumMax e \<and>
            take (unat (failedAddressNum f)) (addresses f) =
              map Some (failedOf (addCalls (calls f))) \<and>
            drop (kIPv6AddressesNumMax e - unat (successAddressNum f)) (addresses f) =
              map Some (rev (succOf (addCalls (calls f))))"
      by (rule mlrLoopState_invariant [OF max conjunct1 [OF h] conjunct1 [OF conjunct2 [OF h]]
                 conjunct2 [OF conjunct2 [OF h]]])
  qed
  show ?thesis
    by (intro conjI) (fact run(1), fact run(2), fact run(3), fact size, fact loop)
qed

theorem mlr_addresses_array_in_bounds_witness:
  "kIPv6AddressesNumMin exampleEnv \<le> 1 \<and> kIPv6AddressesNumMax exampleEnv \<le> 255 \<and>
   unat (64 :: 16 word) mod sizeof_Ip6_Address = 0 \<and>
   unat (64 :: 16 word) div sizeof_Ip6_Address \<le> kIPv6AddressesNumMax exampleEnv \<and>
   mlrLoopState exampleEnv exampleMixedRequest 64 3600 3605000
     (mlrEntry exampleEnv exampleManager\<lparr>timeout := Some 3600\<rparr>) 4 = Some (64, exampleMixedFrame) \<and>
   unat (failedAddressNum exampleMixedFrame) + unat (successAddressNum exampleMixedFrame)
     \<le> kIPv6AddressesNumMax exampleEnv \<and>
   length (addresses exampleMixedFrame) = kIPv6AddressesNumMax exampleEnv \<and>
   take (unat (failedAddressNum exampleMixedFrame)) (addresses exampleMixedFrame) =
     map Some (failedOf (addCalls (calls exampleMixedFrame))) \<and>
   drop (kIPv6AddressesNumMax exampleEnv - unat (successAddressNum exampleMixedFrame))
     (addresses exampleMixedFrame) =
     map Some (rev (succOf (addCalls (calls exampleMixedFrame)))) \<and>
   HandleMulticastListenerRegistration exampleEnv exampleManager exampleMixedRequest \<noteq> None \<and>
   HandleMulticastListenerRegistration exampleEnv exampleManager exampleMixedRequest \<noteq>
     Some (Inl ArrayIndexOutOfBounds) \<and>
   HandleMulticastListenerRegistration exampleEnv exampleManager exampleMixedRequest \<noteq>
     Some (Inl AssertAddressNumRange)"
proof -
  have h: "kIPv6AddressesNumMin exampleEnv \<le> 1" "kIPv6AddressesNumMax exampleEnv \<le> 255"
    by code_simp+
  have len: "unat (64 :: 16 word) mod sizeof_Ip6_Address = 0"
    "unat (64 :: 16 word) div sizeof_Ip6_Address \<le> kIPv6AddressesNumMax exampleEnv"
    by code_simp+
  have st: "mlrLoopState exampleEnv exampleMixedRequest 64 3600 3605000
     (mlrEntry exampleEnv exampleManager\<lparr>timeout := Some 3600\<rparr>) 4 = Some (64, exampleMixedFrame)"
    by code_simp
  note all = mlr_addresses_array_in_bounds [OF h, where m = exampleManager
               and aMessage = exampleMixedRequest]
  note loop = all [THEN conjunct2, THEN conjunct2, THEN conjunct2, THEN conjunct2, rule_format]
  show ?thesis
    using h len st all [THEN conjunct1] all [THEN conjunct2, THEN conjunct1]
      all [THEN conjunct2, THEN conjunct2, THEN conjunct1]
      loop [OF conjI [OF len(1) conjI [OF len(2) st]]]
    by (simp only: simp_thms)
qed

section \<open>Domain Unicast Address registration: the silent drop\<close>

text \<open>
  C6. A DUA registration request whose source address has an interface identifier that is
  not a routing locator is dropped silently, whatever else the message holds: the
  handler makes no call at all, so no response of any kind is sent, and the manager,
  with its proxy table, is left as it was.
\<close>

theorem dua_non_rloc_source_dropped:
  assumes "\<not> IsRoutingLocator e (GetIid e (GetPeerAddr aMessageInfo))"
  shows "HandleDuaRegistration e m aMessage aMessageInfo = ([], m)"
  using assms by (simp add: HandleDuaRegistration_def duaExit_def Let_def)

theorem dua_non_rloc_source_dropped_witness:
  "\<not> IsRoutingLocator exampleEnv (GetIid exampleEnv (GetPeerAddr exampleOtherSender)) \<and>
   HandleDuaRegistration exampleEnv exampleManager exampleDuaRequest exampleOtherSender =
     ([], exampleManager)"
proof -
  have h: "\<not> IsRoutingLocator exampleEnv (GetIid exampleEnv (GetPeerAddr exampleOtherSender))"
    by code_simp
  show ?thesis
    using h dua_non_rloc_source_dropped [OF h, where m = exampleManager
                                           and aMessage = exampleDuaRequest]
    by simp
qed

section \<open>The forwarding decision\<close>

text \<open>
  C7. For every destination address the query answers true exactly when this router is
  primary, the address is a domain unicast address, its interface identifier is not
  registered in the proxy table, and the address resolver either returns an error or
  resolves the address to this router's own RLOC16. The query leaves the manager, with
  both tables and the timer, as it was.
\<close>

theorem should_forward_dua_iff:
  "ShouldForwardDuaToBackbone e m aAddress =
     (IsPrimary e \<and> IsDomainUnicast e aAddress \<and>
      \<not> NdProxyIsRegistered e (GetIid e aAddress) (mNdProxyTable m) \<and>
      (fst (Resolve e aAddress) \<noteq> OT_ERROR_NONE \<or> snd (Resolve e aAddress) = GetRloc16 e),
      m)"
  by (cases "Resolve e aAddress") (simp add: ShouldForwardDuaToBackbone_def)

theorem should_forward_dua_iff_witness:
  "IsPrimary exampleEnv \<and> IsDomainUnicast exampleEnv 0xfd007d037d037d030000000000000009 \<and>
   \<not> NdProxyIsRegistered exampleEnv (GetIid exampleEnv 0xfd007d037d037d030000000000000009)
        (mNdProxyTable exampleManager) \<and>
   fst (Resolve exampleEnv 0xfd007d037d037d030000000000000009) \<noteq> OT_ERROR_NONE \<and>
   ShouldForwardDuaToBackbone exampleEnv exampleManager 0xfd007d037d037d030000000000000009 =
     (True, exampleManager)"
proof -
  have h: "IsPrimary exampleEnv"
    "IsDomainUnicast exampleEnv 0xfd007d037d037d030000000000000009"
    "\<not> NdProxyIsRegistered exampleEnv (GetIid exampleEnv 0xfd007d037d037d030000000000000009)
         (mNdProxyTable exampleManager)"
    "fst (Resolve exampleEnv 0xfd007d037d037d030000000000000009) \<noteq> OT_ERROR_NONE"
    by code_simp+
  show ?thesis
    using h should_forward_dua_iff [where e = exampleEnv and m = exampleManager
                                      and aAddress = "0xfd007d037d037d030000000000000009"]
    by simp
qed

section \<open>The Backbone Router is disabled\<close>

text \<open>
  C8. When the state-changed event is handled and the Backbone Router is disabled, then,
  with the \<^verbatim>\<open>Clear\<close> of the multicast listeners table as the specification describes it,
  the multicast listeners table is empty afterwards, whatever it held before, the expiry
  timer is stopped, and the proxy table is the one from before the event: the
  transition neither removes nor alters a proxy entry.
\<close>

theorem disabled_clears_listeners_and_keeps_proxy:
  assumes "kEventThreadBackboneRouterStateChanged \<in> aEvents"
    and "GetState e = OT_BACKBONE_ROUTER_STATE_DISABLED"
    and "ListenersClear e = specListenersClear"
  shows "mMulticastListenersTable (snd (HandleNotifierEvents e m aEvents)) = [] \<and>
         mTimer (snd (HandleNotifierEvents e m aEvents)) = None \<and>
         mNdProxyTable (snd (HandleNotifierEvents e m aEvents)) = mNdProxyTable m"
  using assms by (simp add: HandleNotifierEvents_def specListenersClear_def)

theorem disabled_clears_listeners_and_keeps_proxy_witness:
  "kEventThreadBackboneRouterStateChanged \<in> {kEventThreadBackboneRouterStateChanged} \<and>
   GetState exampleDisabledEnv = OT_BACKBONE_ROUTER_STATE_DISABLED \<and>
   ListenersClear exampleDisabledEnv = specListenersClear \<and>
   mMulticastListenersTable exampleBusyManager = [(0xff040000000000000000000000000001, 9000)] \<and>
   mTimer exampleBusyManager = Some 6000 \<and>
   mMulticastListenersTable
     (snd (HandleNotifierEvents exampleDisabledEnv exampleBusyManager
             {kEventThreadBackboneRouterStateChanged})) = [] \<and>
   mTimer
     (snd (HandleNotifierEvents exampleDisabledEnv exampleBusyManager
             {kEventThreadBackboneRouterStateChanged})) = None \<and>
   mNdProxyTable
     (snd (HandleNotifierEvents exampleDisabledEnv exampleBusyManager
             {kEventThreadBackboneRouterStateChanged})) = [(9, 5, 0x4401, None)]"
proof -
  have h1: "kEventThreadBackboneRouterStateChanged \<in> {kEventThreadBackboneRouterStateChanged}"
    by simp
  have h2: "GetState exampleDisabledEnv = OT_BACKBONE_ROUTER_STATE_DISABLED"
    by code_simp
  have h3: "ListenersClear exampleDisabledEnv = specListenersClear"
    by (simp add: exampleDisabledEnv_def exampleEnv_def)
  have before: "mMulticastListenersTable exampleBusyManager =
                  [(0xff040000000000000000000000000001, 9000)]"
    "mTimer exampleBusyManager = Some 6000"
    "mNdProxyTable exampleBusyManager = [(9, 5, 0x4401, None)]"
    by code_simp+
  show ?thesis
    using h1 h2 h3 before
      disabled_clears_listeners_and_keeps_proxy [OF h1 h2 h3, where m = exampleBusyManager]
    by (simp only: simp_thms)
qed

end
